theory Spec2Isabelle
  imports Complex_Main "HOL-Library.Sublist"
begin

section \<open>ClusterPlot: zoom-driven level, density filter, selection and marker styling\<close>

text \<open>
  The component \<^verbatim>\<open>ClusterPlot\<close> keeps three state cells (\<^verbatim>\<open>currentLevel\<close>,
  \<^verbatim>\<open>densityThreshold\<close>, \<^verbatim>\<open>selectedCluster\<close>) and derives from them and from its props
  the point set and the marker styling handed to the plotting widget. Each handler
  is modelled as a function from the state before to the state after; each memoised
  derivation as a function of the values it depends on.
\<close>

subsection \<open>Numbers\<close>

text \<open>
  A value of the language's \<^verbatim>\<open>number\<close> type is a finite binary64 number, an infinity or
  NaN. An arithmetic operation on finite numbers computes the exact real result and rounds
  it to the nearest binary64 number, ties to the even significand, with gradual underflow;
  a rounded result of magnitude \<open>2\<^sup>1\<^sup>0\<^sup>2\<^sup>4\<close> or more is an infinity. Zero has no sign here
  (the one divisor of the program, \<^verbatim>\<open>maxX - minX\<close>, is \<open>+0\<close> whenever it is zero).
  Coordinates, axis bounds and \<^verbatim>\<open>maxLevel\<close> are any numbers, NaN and the infinities
  included; the slider value, which the range input keeps numeric, is a finite number of
  type \<^typ>\<open>real\<close>.
\<close>

datatype jsnum = Fin real | PInf | NInf | NaN

text \<open>Rounding a real to the nearest integer, a tie to the even one.\<close>

definition rhe :: "real \<Rightarrow> int" where
  "rhe y =
     (let f = \<lfloor>y\<rfloor>; d = y - of_int f
      in if d < 1 / 2 then f else if 1 / 2 < d then f + 1 else if even f then f else f + 1)"

text \<open>
  A positive real \<open>x\<close> is written \<open>y * 2\<^sup>q\<close> with the significand \<open>y\<close> in
  \<open>[2\<^sup>5\<^sup>2, 2\<^sup>5\<^sup>3)\<close>, or below \<open>2\<^sup>5\<^sup>2\<close> at the least exponent \<open>q = -1074\<close> (the subnormal
  numbers): halve while the significand is too large, then double while it is too small.
\<close>

function norm_up :: "real \<Rightarrow> int \<Rightarrow> real \<times> int" where
  "norm_up y q = (if 2 ^ 53 \<le> y then norm_up (y / 2) (q + 1) else (y, q))"
  by pat_completeness auto
termination
proof (relation "measure (\<lambda>(y, q). nat \<lfloor>y\<rfloor>)")
  show "wf (measure (\<lambda>(y, q). nat \<lfloor>y\<rfloor>))" by simp
next
  fix y :: real and q :: int
  assume a: "2 ^ 53 \<le> y"
  then have "y / 2 \<le> y - 1" by simp
  then have "\<lfloor>y / 2\<rfloor> \<le> \<lfloor>y - 1\<rfloor>" by (rule floor_mono)
  moreover have "0 < \<lfloor>y\<rfloor>" using a by simp
  ultimately show "((y / 2, q + 1), (y, q)) \<in> measure (\<lambda>(y, q). nat \<lfloor>y\<rfloor>)"
    by simp
qed

function norm_down :: "real \<Rightarrow> int \<Rightarrow> real \<times> int" where
  "norm_down y q = (if y < 2 ^ 52 \<and> - 1074 < q then norm_down (2 * y) (q - 1) else (y, q))"
  by pat_completeness auto
termination
  by (relation "measure (\<lambda>(y, q). nat (q + 1074))") auto

declare norm_up.simps [simp del]

declare norm_down.simps [simp del]

definition normalise :: "real \<Rightarrow> real \<times> int" where
  "normalise y = (case norm_up y 0 of (y', q') \<Rightarrow> norm_down y' q')"

text \<open>The nearest binary64 number with no bound on the exponent above.\<close>

definition round64 :: "real \<Rightarrow> real" where
  "round64 x =
     (if x = 0 then 0
      else case normalise \<bar>x\<bar> of (y, q) \<Rightarrow> sgn x * of_int (rhe y) * 2 powi q)"

text \<open>The number an exact result becomes: rounded, and an infinity on overflow.\<close>

definition fl64 :: "real \<Rightarrow> jsnum" where
  "fl64 x =
     (let r = round64 x
      in if 2 ^ 1024 \<le> r then PInf else if r \<le> - (2 ^ 1024) then NInf else Fin r)"

text \<open>A real that is a finite number of the language.\<close>

definition binary64 :: "real \<Rightarrow> bool" where
  "binary64 x = (round64 x = x \<and> \<bar>x\<bar> < 2 ^ 1024)"

fun jsub :: "jsnum \<Rightarrow> jsnum \<Rightarrow> jsnum" where
  "jsub NaN b = NaN"
| "jsub a NaN = NaN"
| "jsub (Fin a) (Fin b) = fl64 (a - b)"
| "jsub (Fin a) PInf = NInf"
| "jsub (Fin a) NInf = PInf"
| "jsub PInf PInf = NaN"
| "jsub PInf b = PInf"
| "jsub NInf NInf = NaN"
| "jsub NInf b = NInf"

fun jadd :: "jsnum \<Rightarrow> jsnum \<Rightarrow> jsnum" where
  "jadd NaN b = NaN"
| "jadd a NaN = NaN"
| "jadd (Fin a) (Fin b) = fl64 (a + b)"
| "jadd (Fin a) b = b"
| "jadd PInf NInf = NaN"
| "jadd PInf b = PInf"
| "jadd NInf PInf = NaN"
| "jadd NInf b = NInf"

fun jmul :: "jsnum \<Rightarrow> jsnum \<Rightarrow> jsnum" where
  "jmul NaN b = NaN"
| "jmul a NaN = NaN"
| "jmul (Fin a) (Fin b) = fl64 (a * b)"
| "jmul (Fin a) PInf = (if a = 0 then NaN else if 0 < a then PInf else NInf)"
| "jmul (Fin a) NInf = (if a = 0 then NaN else if 0 < a then NInf else PInf)"
| "jmul PInf (Fin b) = (if b = 0 then NaN else if 0 < b then PInf else NInf)"
| "jmul NInf (Fin b) = (if b = 0 then NaN else if 0 < b then NInf else PInf)"
| "jmul PInf PInf = PInf"
| "jmul PInf NInf = NInf"
| "jmul NInf PInf = NInf"
| "jmul NInf NInf = PInf"

text \<open>Division: a finite non-zero number over zero is an infinity, zero over zero is NaN.\<close>

fun jdiv :: "jsnum \<Rightarrow> jsnum \<Rightarrow> jsnum" where
  "jdiv NaN b = NaN"
| "jdiv a NaN = NaN"
| "jdiv (Fin a) (Fin b) =
     (if b \<noteq> 0 then fl64 (a / b)
      else if a = 0 then NaN
      else if 0 < a then PInf else NInf)"
| "jdiv (Fin a) b = Fin 0"
| "jdiv PInf (Fin b) = (if 0 \<le> b then PInf else NInf)"
| "jdiv NInf (Fin b) = (if 0 \<le> b then NInf else PInf)"
| "jdiv a b = NaN"

text \<open>
  \<^verbatim>\<open>Math.max\<close> and \<^verbatim>\<open>Math.min\<close> of two arguments: NaN if either is NaN. They and
  \<^verbatim>\<open>Math.floor\<close> are exact: their result on numbers is a number.
\<close>

fun Math_max :: "jsnum \<Rightarrow> jsnum \<Rightarrow> jsnum" where
  "Math_max NaN b = NaN"
| "Math_max a NaN = NaN"
| "Math_max PInf b = PInf"
| "Math_max a PInf = PInf"
| "Math_max NInf b = b"
| "Math_max a NInf = a"
| "Math_max (Fin a) (Fin b) = Fin (max a b)"

fun Math_min :: "jsnum \<Rightarrow> jsnum \<Rightarrow> jsnum" where
  "Math_min NaN b = NaN"
| "Math_min a NaN = NaN"
| "Math_min NInf b = NInf"
| "Math_min a NInf = NInf"
| "Math_min PInf b = b"
| "Math_min a PInf = a"
| "Math_min (Fin a) (Fin b) = Fin (min a b)"

fun Math_floor :: "jsnum \<Rightarrow> jsnum" where
  "Math_floor (Fin a) = Fin (of_int \<lfloor>a\<rfloor>)"
| "Math_floor a = a"

text \<open>The comparison \<^verbatim>\<open>a < b\<close>: false as soon as one side is NaN.\<close>

fun jlt :: "jsnum \<Rightarrow> jsnum \<Rightarrow> bool" where
  "jlt NaN b = False"
| "jlt a NaN = False"
| "jlt (Fin a) (Fin b) = (a < b)"
| "jlt (Fin a) PInf = True"
| "jlt (Fin a) NInf = False"
| "jlt PInf b = False"
| "jlt NInf NInf = False"
| "jlt NInf b = True"

text \<open>
  \<^verbatim>\<open>Math.min(...xs)\<close> and \<^verbatim>\<open>Math.max(...xs)\<close> over a spread array: with no argument
  they are \<open>+Infinity\<close> and \<open>-Infinity\<close>.
\<close>

definition Math_min_spread :: "jsnum list \<Rightarrow> jsnum" where
  "Math_min_spread vs = foldr Math_min vs PInf"

definition Math_max_spread :: "jsnum list \<Rightarrow> jsnum" where
  "Math_max_spread vs = foldr Math_max vs NInf"

subsection \<open>Props and state\<close>

text \<open>
  A cluster id is a string or a number (\<^verbatim>\<open>Array<string | number>\<close>), NaN and the
  infinities included. A value read from a \<^verbatim>\<open>clusters\<close> array, held in
  \<^verbatim>\<open>selectedCluster\<close> or handed to the widget as a colour is such an id, \<^verbatim>\<open>undefined\<close> or
  \<^verbatim>\<open>null\<close>.
\<close>

datatype cid = Str string | Num jsnum

datatype jsval = Undefined | Null | Val cid

text \<open>
  \<^verbatim>\<open>a === b\<close> on such values: the same value, except that NaN is not equal to itself.
  \<^verbatim>\<open>a !== b\<close> is its negation.
\<close>

definition strictEq :: "jsval \<Rightarrow> jsval \<Rightarrow> bool" where
  "strictEq a b = (a = b \<and> a \<noteq> Val (Num NaN))"

record point =
  pt_x :: jsnum
  pt_y :: jsnum
  clusters :: "cid list"

text \<open>The optional props are \<open>None\<close> when the caller leaves them out.\<close>

record ClusterPlotType =
  embeddings :: "point list"
  maxLevel :: "jsnum option"
  sliderMax :: "jsnum option"

text \<open>The destructuring defaults: \<^verbatim>\<open>maxLevel = 10, sliderMax = 10\<close>.\<close>

definition maxLevel_of :: "ClusterPlotType \<Rightarrow> jsnum" where
  "maxLevel_of params = (case maxLevel params of None \<Rightarrow> Fin 10 | Some m \<Rightarrow> m)"

definition sliderMax_of :: "ClusterPlotType \<Rightarrow> jsnum" where
  "sliderMax_of params = (case sliderMax params of None \<Rightarrow> Fin 10 | Some m \<Rightarrow> m)"

record state =
  currentLevel :: jsnum
  densityThreshold :: real
  selectedCluster :: jsval

definition initial_state :: state where
  "initial_state = \<lparr>currentLevel = Fin 0, densityThreshold = 0, selectedCluster = Null\<rparr>"

subsection \<open>Zoom-to-level mapping\<close>

definition minX :: "point list \<Rightarrow> jsnum" where
  "minX pts = Math_min_spread (map pt_x pts)"

definition maxX :: "point list \<Rightarrow> jsnum" where
  "maxX pts = Math_max_spread (map pt_x pts)"

definition totalRange :: "point list \<Rightarrow> jsnum" where
  "totalRange pts = jsub (maxX pts) (minX pts)"

text \<open>
  The relayout event: the two keys \<^verbatim>\<open>'xaxis.range[0]'\<close> and \<^verbatim>\<open>'xaxis.range[1]'\<close>, each
  a number or absent.
\<close>

record PlotRelayoutEvent =
  xaxis_range0 :: "jsnum option"
  xaxis_range1 :: "jsnum option"

definition relativeZoom :: "jsnum \<Rightarrow> jsnum \<Rightarrow> jsnum \<Rightarrow> jsnum" where
  "relativeZoom tRange x0 x1 =
     (let currentRange = jsub x1 x0
      in Math_min (Math_max (jdiv (jsub tRange currentRange) tRange) (Fin 0)) (Fin 1))"

definition handleRelayout :: "ClusterPlotType \<Rightarrow> PlotRelayoutEvent \<Rightarrow> state \<Rightarrow> state" where
  "handleRelayout params event st =
     (case (xaxis_range0 event, xaxis_range1 event) of
        (Some x0, Some x1) \<Rightarrow>
          (let level = Math_floor (jmul (relativeZoom (totalRange (embeddings params)) x0 x1)
                                        (maxLevel_of params))
           in st\<lparr>currentLevel := level\<rparr>)
      | _ \<Rightarrow> st)"

subsection \<open>Reading a cluster id\<close>

text \<open>
  \<^verbatim>\<open>pt.clusters[currentLevel]\<close>: the element when the level is an integer index within the
  array, \<^verbatim>\<open>undefined\<close> otherwise (a fractional, negative, infinite or NaN level names no
  element, and reading it raises nothing).
\<close>

fun array_get :: "cid list \<Rightarrow> jsnum \<Rightarrow> jsval" where
  "array_get cs (Fin r) =
     (if r = of_int \<lfloor>r\<rfloor> \<and> 0 \<le> r \<and> nat \<lfloor>r\<rfloor> < length cs
      then Val (cs ! nat \<lfloor>r\<rfloor>) else Undefined)"
| "array_get cs lvl = Undefined"

definition cluster_at :: "jsnum \<Rightarrow> point \<Rightarrow> jsval" where
  "cluster_at lvl pt = array_get (clusters pt) lvl"

subsection \<open>Density filter\<close>

text \<open>
  \<^verbatim>\<open>counts\<close> is an object literal \<^verbatim>\<open>{}\<close> used as a dictionary. Its keys are property
  keys, that is strings: a numeric id is converted by the language's number-to-string
  conversion, which is not part of the repository and is the parameter \<open>numToString\<close>
  below; \<^verbatim>\<open>undefined\<close> becomes the key \<^verbatim>\<open>"undefined"\<close>.
\<close>

fun propertyKey :: "(jsnum \<Rightarrow> string) \<Rightarrow> jsval \<Rightarrow> string" where
  "propertyKey numToString Undefined = ''undefined''"
| "propertyKey numToString Null = ''null''"
| "propertyKey numToString (Val (Str s)) = s"
| "propertyKey numToString (Val (Num r)) = numToString r"

text \<open>
  What a read of \<^verbatim>\<open>counts[k]\<close> can give: \<^verbatim>\<open>undefined\<close>, a number (a count), a string
  that is no numeral, or a member inherited from \<^verbatim>\<open>Object.prototype\<close> (a function, or
  the prototype object itself for \<^verbatim>\<open>__proto__\<close>).
\<close>

datatype propval = PUndefined | PNumber nat | PString | PObject

text \<open>The property names every object literal inherits from \<^verbatim>\<open>Object.prototype\<close>.\<close>

definition objectPrototypeKeys :: "string list" where
  "objectPrototypeKeys =
     [''constructor'', ''hasOwnProperty'', ''isPrototypeOf'', ''propertyIsEnumerable'',
      ''toLocaleString'', ''toString'', ''valueOf'', ''__proto__'',
      ''__defineGetter__'', ''__defineSetter__'', ''__lookupGetter__'', ''__lookupSetter__'']"

text \<open>A read looks at the object's own properties first, then at the prototype.\<close>

definition getProp :: "(string \<rightharpoonup> propval) \<Rightarrow> string \<Rightarrow> propval" where
  "getProp own k =
     (case own k of
        Some v \<Rightarrow> v
      | None \<Rightarrow> if k \<in> set objectPrototypeKeys then PObject else PUndefined)"

text \<open>
  \<^verbatim>\<open>(counts[cid] || 0) + 1\<close>: \<^verbatim>\<open>undefined\<close> and \<open>0\<close> are falsy and give \<open>0 + 1\<close>; a
  function, an object or a non-empty string is truthy, and \<^verbatim>\<open>+ 1\<close> on it is string
  concatenation (\<^verbatim>\<open>"function Object() { [native code] }1"\<close>), never a numeral.
\<close>

fun orZeroPlusOne :: "propval \<Rightarrow> propval" where
  "orZeroPlusOne PUndefined = PNumber 1"
| "orZeroPlusOne (PNumber n) = PNumber (n + 1)"
| "orZeroPlusOne PString = PString"
| "orZeroPlusOne PObject = PString"

text \<open>
  An assignment creates or overwrites an own property, except for the key
  \<^verbatim>\<open>__proto__\<close>: that is an inherited setter, which ignores a value that is neither an
  object nor \<^verbatim>\<open>null\<close>.
\<close>

definition setProp :: "(string \<rightharpoonup> propval) \<Rightarrow> string \<Rightarrow> propval \<Rightarrow> (string \<rightharpoonup> propval)" where
  "setProp own k v = (if k = ''__proto__'' then own else own(k \<mapsto> v))"

text \<open>The \<^verbatim>\<open>forEach\<close> loop that fills \<^verbatim>\<open>counts\<close>.\<close>

fun countClusters ::
  "(jsnum \<Rightarrow> string) \<Rightarrow> jsnum \<Rightarrow> point list \<Rightarrow> (string \<rightharpoonup> propval) \<Rightarrow> (string \<rightharpoonup> propval)" where
  "countClusters numToString lvl [] counts = counts"
| "countClusters numToString lvl (pt # pts) counts =
     (let k = propertyKey numToString (cluster_at lvl pt)
      in countClusters numToString lvl pts (setProp counts k (orZeroPlusOne (getProp counts k))))"

text \<open>
  \<^verbatim>\<open>counts[...] >= densityThreshold\<close>: anything but a number converts to NaN, and a
  comparison with NaN is false.
\<close>

fun geThreshold :: "propval \<Rightarrow> real \<Rightarrow> bool" where
  "geThreshold (PNumber n) t = (t \<le> real n)"
| "geThreshold p t = False"

definition filteredData :: "(jsnum \<Rightarrow> string) \<Rightarrow> point list \<Rightarrow> jsnum \<Rightarrow> real \<Rightarrow> point list" where
  "filteredData numToString embs lvl threshold =
     (let counts = countClusters numToString lvl embs Map.empty
      in filter (\<lambda>pt. geThreshold (getProp counts (propertyKey numToString (cluster_at lvl pt)))
                                  threshold) embs)"

subsection \<open>Selection\<close>

text \<open>
  The click event: \<^verbatim>\<open>event.points\<close> (absent, or a list of the clicked points), each
  point carrying the \<^verbatim>\<open>customdata\<close> entry the component attached to it.
\<close>

record PlotDatum =
  customdata :: jsval

record PlotMouseEvent =
  points :: "PlotDatum list option"

text \<open>
  \<^verbatim>\<open>event.points && event.points.length > 0\<close> holds when the list is present and not
  empty; the updater is \<^verbatim>\<open>prev => (prev === cid ? null : cid)\<close>.
\<close>

definition handleClick :: "PlotMouseEvent \<Rightarrow> state \<Rightarrow> state" where
  "handleClick event st =
     (case points event of
        Some (p # ps) \<Rightarrow>
          (let cid = customdata p
           in st\<lparr>selectedCluster := (if strictEq (selectedCluster st) cid then Null else cid)\<rparr>)
      | _ \<Rightarrow> st\<lparr>selectedCluster := Null\<rparr>)"

subsection \<open>Marker styling and the data handed to the widget\<close>

text \<open>\<^verbatim>\<open>selectedCluster != null\<close>: neither \<^verbatim>\<open>null\<close> nor \<^verbatim>\<open>undefined\<close>.\<close>

definition notNull :: "jsval \<Rightarrow> bool" where
  "notNull v = (v \<noteq> Null \<and> v \<noteq> Undefined)"

definition markerColor :: "ClusterPlotType \<Rightarrow> state \<Rightarrow> point \<Rightarrow> jsval" where
  "markerColor params st pt =
     (if notNull (selectedCluster st)
         \<and> \<not> strictEq (cluster_at (currentLevel st) pt) (selectedCluster st)
      then Val (Str ''#ccc'')
      else if notNull (selectedCluster st) \<and> jlt (currentLevel st) (maxLevel_of params)
              \<and> strictEq (cluster_at (currentLevel st) pt) (selectedCluster st)
      then cluster_at (jadd (currentLevel st) (Fin 1)) pt
      else cluster_at (currentLevel st) pt)"

definition markerOpacity :: "state \<Rightarrow> point \<Rightarrow> real" where
  "markerOpacity st pt =
     (if notNull (selectedCluster st)
         \<and> \<not> strictEq (cluster_at (currentLevel st) pt) (selectedCluster st)
      then 0.2 else 1)"

record trace =
  trace_x :: "jsnum list"
  trace_y :: "jsnum list"
  trace_customdata :: "jsval list"
  marker_color :: "jsval list"
  marker_opacity :: "real list"

definition render :: "(jsnum \<Rightarrow> string) \<Rightarrow> ClusterPlotType \<Rightarrow> state \<Rightarrow> trace" where
  "render numToString params st =
     (let fd = filteredData numToString (embeddings params) (currentLevel st) (densityThreshold st)
      in \<lparr>trace_x = map pt_x fd,
          trace_y = map pt_y fd,
          trace_customdata = map (cluster_at (currentLevel st)) fd,
          marker_color = map (markerColor params st) fd,
          marker_opacity = map (markerOpacity st) fd\<rparr>)"

subsection \<open>The zoom formula as the specification words it\<close>

text \<open>
  \<open>floor(clamp((totalXRange - (x1 - x0)) / totalXRange, 0, 1) * maxLevel)\<close>, first with
  the operations of the language on any numbers, infinities and NaN included.
\<close>

definition spec_clamp :: "jsnum \<Rightarrow> jsnum \<Rightarrow> jsnum \<Rightarrow> jsnum" where
  "spec_clamp v lo hi = (if jlt v lo then lo else if jlt hi v then hi else v)"

definition spec_level :: "jsnum \<Rightarrow> jsnum \<Rightarrow> jsnum \<Rightarrow> jsnum \<Rightarrow> jsnum" where
  "spec_level tRange x0 x1 maxLvl =
     Math_floor (jmul (spec_clamp (jdiv (jsub tRange (jsub x1 x0)) tRange) (Fin 0) (Fin 1))
                      maxLvl)"

text \<open>
  The same formula over the reals, for a finite range \<open>t\<close> that is not zero: the
  difference, quotient and product are those of the reals, each rounded once, and the
  clamp and the floor are those of the reals. It is the value of the formula where no
  operation overflows.
\<close>

definition spec_clamp_real :: "real \<Rightarrow> real \<Rightarrow> real \<Rightarrow> real" where
  "spec_clamp_real v lo hi = (if v < lo then lo else if hi < v then hi else v)"

definition spec_quotient :: "real \<Rightarrow> real \<Rightarrow> real \<Rightarrow> real" where
  "spec_quotient t x0 x1 = round64 (round64 (t - round64 (x1 - x0)) / t)"

definition spec_level_real :: "real \<Rightarrow> real \<Rightarrow> real \<Rightarrow> real \<Rightarrow> int" where
  "spec_level_real t x0 x1 maxLvl =
     \<lfloor>round64 (spec_clamp_real (spec_quotient t x0 x1) 0 1 * maxLvl)\<rfloor>"

definition in_range :: "real \<Rightarrow> bool" where
  "in_range z = (\<bar>round64 z\<bar> < 2 ^ 1024)"

definition spec_no_overflow :: "real \<Rightarrow> real \<Rightarrow> real \<Rightarrow> real \<Rightarrow> bool" where
  "spec_no_overflow t x0 x1 maxLvl =
     (in_range (x1 - x0)
      \<and> in_range (t - round64 (x1 - x0))
      \<and> in_range (round64 (t - round64 (x1 - x0)) / t)
      \<and> in_range (spec_clamp_real (spec_quotient t x0 x1) 0 1 * maxLvl))"

subsection \<open>The density filter as the specification words it\<close>

text \<open>
  ``For the active level, count points per cluster id. Retain only points whose cluster
  count \<open>\<ge> densityThreshold\<close>'': the count of a point is the number of points of the
  full list whose cluster id at the level is the same value.
\<close>

definition spec_clusterCount :: "point list \<Rightarrow> jsnum \<Rightarrow> point \<Rightarrow> nat" where
  "spec_clusterCount embs lvl pt =
     length (filter (\<lambda>q. cluster_at lvl q = cluster_at lvl pt) embs)"

definition spec_retained :: "point list \<Rightarrow> jsnum \<Rightarrow> real \<Rightarrow> point \<Rightarrow> bool" where
  "spec_retained embs lvl threshold pt =
     (pt \<in> set embs \<and> threshold \<le> real (spec_clusterCount embs lvl pt))"

subsection \<open>A number-to-string conversion for examples\<close>

text \<open>
  The language prints NaN and the infinities by name, a non-negative integer below
  \<open>10\<^sup>2\<^sup>1\<close> as its decimal digits and a negative one with a leading minus sign.
  \<open>decimalToString\<close> is that conversion on these numbers and is the instance of
  \<open>numToString\<close> in the examples. Any other number the language prints as a fraction or
  with an exponent, which is not modelled: there \<open>decimalToString\<close> is the empty string,
  and no example has such an id.
\<close>

fun decimal :: "nat \<Rightarrow> string" where
  "decimal n =
     (if n < 10 then [''0123456789'' ! n]
      else decimal (n div 10) @ [''0123456789'' ! (n mod 10)])"

declare decimal.simps [simp del]

fun decimalToString :: "jsnum \<Rightarrow> string" where
  "decimalToString NaN = ''NaN''"
| "decimalToString PInf = ''Infinity''"
| "decimalToString NInf = ''-Infinity''"
| "decimalToString (Fin r) =
     (if r = of_int \<lfloor>r\<rfloor> \<and> \<bar>r\<bar> < 10 ^ 21
      then (if r < 0 then CHR ''-'' # decimal (nat \<lfloor>- r\<rfloor>) else decimal (nat \<lfloor>r\<rfloor>))
      else [])"

section \<open>Properties of binary64 rounding\<close>

subsection \<open>Rounding to an integer\<close>

lemma rhe_of_int: "rhe (of_int k) = k"
  by (simp add: rhe_def)

lemma rhe_le: "y \<le> of_int k \<Longrightarrow> rhe y \<le> k"
proof -
  assume a: "y \<le> of_int k"
  show ?thesis
  proof (cases "y = of_int k")
    case True
    then show ?thesis by (simp add: rhe_of_int)
  next
    case False
    with a have "y < of_int k" by simp
    then have "\<lfloor>y\<rfloor> < k" by (simp add: floor_less_iff)
    then have "\<lfloor>y\<rfloor> + 1 \<le> k" by simp
    moreover have "rhe y \<le> \<lfloor>y\<rfloor> + 1" by (simp add: rhe_def Let_def)
    ultimately show ?thesis by linarith
  qed
qed

lemma rhe_ge: "of_int k \<le> y \<Longrightarrow> k \<le> rhe y"
proof -
  assume "of_int k \<le> y"
  then have "k \<le> \<lfloor>y\<rfloor>" by (simp add: le_floor_iff)
  moreover have "\<lfloor>y\<rfloor> \<le> rhe y" by (simp add: rhe_def Let_def)
  ultimately show ?thesis by linarith
qed

subsection \<open>The normal form of a positive real\<close>

lemma pow2_Suc: "(2::real) powi (q + 1) = 2 * 2 powi q"
  by (simp add: power_int_add)

lemma pow2_pred: "(2::real) powi (q - 1) = 2 powi q / 2"
  by (simp add: power_int_diff)

lemma norm_up_spec:
  "0 < y \<Longrightarrow> norm_up y q = (y', q') \<Longrightarrow>
     y * 2 powi q = y' * 2 powi q' \<and> q \<le> q' \<and> 0 < y' \<and> y' < 2 ^ 53
     \<and> (2 ^ 53 \<le> y \<longrightarrow> 2 ^ 52 \<le> y') \<and> (y < 2 ^ 53 \<longrightarrow> y' = y \<and> q' = q)"
proof (induction y q rule: norm_up.induct)
  case (1 y q)
  show ?case
  proof (cases "2 ^ 53 \<le> y")
    case False
    then have "norm_up y q = (y, q)"
      by (subst norm_up.simps, subst if_not_P) (assumption, rule refl)
    with "1.prems" False show ?thesis by simp
  next
    case True
    then have "norm_up y q = norm_up (y / 2) (q + 1)"
      by (subst norm_up.simps, subst if_P) (assumption, rule refl)
    then have eq: "norm_up (y / 2) (q + 1) = (y', q')"
      using "1.prems" by simp
    have pos: "0 < y / 2" using "1.prems" by simp
    note ih = "1.IH" [OF True pos eq]
    from ih have "y * 2 powi q = y' * 2 powi q'" by (simp add: pow2_Suc)
    moreover from ih True have "2 ^ 52 \<le> y'" by (cases "2 ^ 53 \<le> y / 2") auto
    ultimately show ?thesis using ih True by auto
  qed
qed

lemma norm_down_spec:
  "0 < y \<Longrightarrow> y < 2 ^ 53 \<Longrightarrow> - 1074 \<le> q \<Longrightarrow> norm_down y q = (y', q') \<Longrightarrow>
     y * 2 powi q = y' * 2 powi q' \<and> - 1074 \<le> q' \<and> 0 < y' \<and> y' < 2 ^ 53
     \<and> (q' = - 1074 \<or> 2 ^ 52 \<le> y')"
proof (induction y q rule: norm_down.induct)
  case (1 y q)
  show ?case
  proof (cases "y < 2 ^ 52 \<and> - 1074 < q")
    case False
    then have "norm_down y q = (y, q)"
      by (subst norm_down.simps, subst if_not_P) (assumption, rule refl)
    with "1.prems" False show ?thesis by auto
  next
    case True
    then have "norm_down y q = norm_down (2 * y) (q - 1)"
      by (subst norm_down.simps, subst if_P) (assumption, rule refl)
    then have eq: "norm_down (2 * y) (q - 1) = (y', q')"
      using "1.prems" by simp
    have "0 < 2 * y" "2 * y < 2 ^ 53" "- 1074 \<le> q - 1"
      using "1.prems" True by simp_all
    note ih = "1.IH" [OF True this eq]
    have "(2 * y) * 2 powi (q - 1) = y * 2 powi q"
      by (simp only: pow2_pred)
    with ih have "y * 2 powi q = y' * 2 powi q'" by simp
    with ih show ?thesis by blast
  qed
qed

lemma normalise_spec:
  assumes "0 < y" and "normalise y = (y', q')"
  shows "y = y' * 2 powi q' \<and> - 1074 \<le> q' \<and> 0 < y' \<and> y' < 2 ^ 53
       \<and> (q' = - 1074 \<or> 2 ^ 52 \<le> y')"
proof -
  obtain y1 q1 where up: "norm_up y 0 = (y1, q1)" by (cases "norm_up y 0")
  from norm_up_spec [OF assms(1) up]
  have u1: "y * 2 powi 0 = y1 * 2 powi q1" and u2: "0 \<le> q1" and u3: "0 < y1" and u4: "y1 < 2 ^ 53"
    by blast+
  have down: "norm_down y1 q1 = (y', q')"
    using assms(2) up by (simp add: normalise_def)
  have q1: "- 1074 \<le> q1" using u2 by simp
  from norm_down_spec [OF u3 u4 q1 down]
  have d: "y1 * 2 powi q1 = y' * 2 powi q'"
    and rest: "- 1074 \<le> q' \<and> 0 < y' \<and> y' < 2 ^ 53 \<and> (q' = - 1074 \<or> 2 ^ 52 \<le> y')"
    by blast+
  have "y = y * 2 powi 0" by simp
  also note u1
  also note d
  finally have "y = y' * 2 powi q'" .
  with rest show ?thesis by blast
qed

text \<open>The normal form is unique.\<close>

lemma pow2_mono: "p \<le> q \<Longrightarrow> (2::real) powi p \<le> 2 powi q"
  by (rule power_int_increasing) simp_all

lemma normal_form_exponent_le:
  fixes y1 y2 :: real
  assumes le: "y1 * 2 powi q1 \<le> y2 * 2 powi q2"
    and "0 < y1" "- 1074 \<le> q1" "q1 = - 1074 \<or> 2 ^ 52 \<le> y1"
    and y2: "y2 < 2 ^ 53" and "- 1074 \<le> q2"
  shows "q1 \<le> q2"
proof (rule ccontr)
  assume "\<not> q1 \<le> q2"
  then have lt: "q2 + 1 \<le> q1" by simp
  with assms(6) have "q1 \<noteq> - 1074" by simp
  with assms(4) have y1: "2 ^ 52 \<le> y1" by simp
  have p2: "0 < (2::real) powi q2" by simp
  have p1: "0 \<le> (2::real) powi q1" by simp
  have "y2 * 2 powi q2 < 2 ^ 53 * 2 powi q2"
    using y2 p2 by (rule mult_strict_right_mono)
  also have "(2::real) ^ 53 * 2 powi q2 = 2 ^ 52 * 2 powi (q2 + 1)"
    by (simp only: pow2_Suc) simp
  also have "(2::real) ^ 52 * 2 powi (q2 + 1) \<le> 2 ^ 52 * 2 powi q1"
    using pow2_mono [OF lt] by (rule mult_left_mono) simp
  also have "(2::real) ^ 52 * 2 powi q1 \<le> y1 * 2 powi q1"
    using y1 p1 by (rule mult_right_mono)
  finally show False using le by simp
qed

lemma normalise_eqI:
  fixes x y :: real
  assumes x: "x = y * 2 powi q" and ypos: "0 < y" and y53: "y < 2 ^ 53" and q: "- 1074 \<le> q"
    and nf: "q = - 1074 \<or> 2 ^ 52 \<le> y"
  shows "normalise x = (y, q)"
proof -
  have xpos: "0 < x" using x ypos by simp
  obtain y' q' where n: "normalise x = (y', q')" by (cases "normalise x")
  from normalise_spec [OF xpos n]
  have x': "x = y' * 2 powi q'" and q': "- 1074 \<le> q'" and ypos': "0 < y'" and y53': "y' < 2 ^ 53"
    and nf': "q' = - 1074 \<or> 2 ^ 52 \<le> y'"
    by blast+
  have e: "y * 2 powi q = y' * 2 powi q'"
    using x [symmetric] x' by (rule trans)
  have le1: "y * 2 powi q \<le> y' * 2 powi q'" and le2: "y' * 2 powi q' \<le> y * 2 powi q"
    by (simp_all only: e order_refl)
  have "q \<le> q'"
    by (rule normal_form_exponent_le [OF le1 ypos q nf y53' q'])
  moreover have "q' \<le> q"
    by (rule normal_form_exponent_le [OF le2 ypos' q' nf' y53 q])
  ultimately have qq: "q = q'" by simp
  have "y * 2 powi q = y' * 2 powi q" using e qq by (simp only:)
  then have "y = y'" by simp
  with qq n show ?thesis by simp
qed

subsection \<open>The rounded value\<close>

lemma round64_zero: "round64 0 = 0"
  by (simp add: round64_def)

lemma round64_minus: "round64 (- x) = - round64 x"
  by (auto simp: round64_def split: prod.splits)

lemma round64_pos:
  assumes "0 < x" and "normalise x = (y, q)"
  shows "round64 x = of_int (rhe y) * 2 powi q"
  using assms by (simp add: round64_def)

lemma round64_evalI:
  fixes x y :: real
  assumes "x = y * 2 powi q" and "0 < y" and "y < 2 ^ 53" and "- 1074 \<le> q"
    and "q = - 1074 \<or> 2 ^ 52 \<le> y"
  shows "round64 x = of_int (rhe y) * 2 powi q"
proof -
  have "0 < x" using assms(1,2) by simp
  then show ?thesis
    using normalise_eqI [OF assms] by (rule round64_pos)
qed

lemma round64_nonneg: "0 \<le> x \<Longrightarrow> 0 \<le> round64 x"
proof (cases "x = 0")
  case True
  then show ?thesis by (simp add: round64_zero)
next
  case False
  assume "0 \<le> x"
  with False have xpos: "0 < x" by simp
  obtain y q where n: "normalise x = (y, q)" by (cases "normalise x")
  from normalise_spec [OF xpos n] have "0 < y" by blast
  then have "of_int 0 \<le> y" by simp
  then have "0 \<le> rhe y" by (rule rhe_ge)
  then show ?thesis by (simp add: round64_pos [OF xpos n])
qed

lemma pow2_split: "p \<le> q \<Longrightarrow> (2::real) powi q = 2 ^ nat (q - p) * 2 powi p"
proof -
  assume "p \<le> q"
  then have "q = int (nat (q - p)) + p" by simp
  then have "(2::real) powi q = 2 powi (int (nat (q - p)) + p)" by simp
  also have "\<dots> = 2 powi int (nat (q - p)) * 2 powi p" by (rule power_int_add) simp
  finally show ?thesis by (simp only: power_int_of_nat)
qed

lemma round64_exact_pos:
  fixes x :: real
  assumes x: "x = of_int k * 2 powi e" and k0: "0 < k" and k53: "k < 2 ^ 53" and e: "- 1074 \<le> e"
  shows "round64 x = x"
proof -
  have xpos: "0 < x" using x k0 by simp
  obtain y q where n: "normalise x = (y, q)" by (cases "normalise x")
  from normalise_spec [OF xpos n]
  have xy: "x = y * 2 powi q" and q: "- 1074 \<le> q" and ypos: "0 < y"
    and nf: "q = - 1074 \<or> 2 ^ 52 \<le> y"
    by blast+
  have kr: "(of_int k :: real) < 2 ^ 53"
  proof -
    have "(of_int k :: real) < of_int (2 ^ 53)" using k53 by (simp only: of_int_less_iff)
    then show ?thesis by simp
  qed
  have le: "y * 2 powi q \<le> of_int k * 2 powi e" using x xy by simp
  have qe: "q \<le> e"
    by (rule normal_form_exponent_le [OF le ypos q nf kr e])
  have "(of_int k :: real) * 2 powi e = of_int k * (2 ^ nat (e - q) * 2 powi q)"
    by (simp only: pow2_split [OF qe])
  also have "\<dots> = of_int (k * 2 ^ nat (e - q)) * 2 powi q" by simp
  finally have "y * 2 powi q = of_int (k * 2 ^ nat (e - q)) * 2 powi q"
    using x xy by simp
  then have y: "y = of_int (k * 2 ^ nat (e - q))" by simp
  have "round64 x = of_int (rhe y) * 2 powi q" by (rule round64_pos [OF xpos n])
  also have "rhe y = k * 2 ^ nat (e - q)" by (simp only: y rhe_of_int)
  finally show ?thesis using xy y by simp
qed

lemma round64_exact:
  fixes x :: real
  assumes x: "x = of_int k * 2 powi e" and k53: "\<bar>k\<bar> < 2 ^ 53" and e: "- 1074 \<le> e"
  shows "round64 x = x"
proof -
  consider "k = 0" | "0 < k" | "k < 0" by linarith
  then show ?thesis
  proof cases
    case 1
    then show ?thesis using x by (simp add: round64_zero)
  next
    case 2
    then show ?thesis using round64_exact_pos [OF x 2 _ e] k53 by simp
  next
    case 3
    have "- x = of_int (- k) * 2 powi e" using x by simp
    moreover have "0 < - k" "- k < 2 ^ 53" using 3 k53 by simp_all
    ultimately have "round64 (- x) = - x" using e by (rule round64_exact_pos)
    then show ?thesis by (simp add: round64_minus)
  qed
qed

lemma round64_of_int: "\<bar>k\<bar> < 2 ^ 53 \<Longrightarrow> round64 (of_int k) = of_int k"
  using round64_exact [of "of_int k" k 0] by simp

text \<open>Rounding never passes a representable number.\<close>

lemma round64_le_exact:
  assumes z0: "0 \<le> z" and zd: "z \<le> d" and rd: "round64 d = d"
  shows "round64 z \<le> d"
proof (cases "z = 0")
  case True
  then show ?thesis using z0 zd by (simp add: round64_zero)
next
  case False
  with z0 have zpos: "0 < z" by simp
  with zd have dpos: "0 < d" by simp
  obtain y q where n: "normalise z = (y, q)" by (cases "normalise z")
  obtain yd qd where nd: "normalise d = (yd, qd)" by (cases "normalise d")
  from normalise_spec [OF zpos n]
  have zy: "z = y * 2 powi q" and q: "- 1074 \<le> q" and ypos: "0 < y"
    and nf: "q = - 1074 \<or> 2 ^ 52 \<le> y"
    by blast+
  from normalise_spec [OF dpos nd]
  have dy: "d = yd * 2 powi qd" and qd: "- 1074 \<le> qd" and yd53: "yd < 2 ^ 53"
    by blast+
  have "of_int (rhe yd) * 2 powi qd = yd * 2 powi qd"
    using rd dy round64_pos [OF dpos nd] by simp
  then have ydn: "yd = of_int (rhe yd)" by simp
  have le: "y * 2 powi q \<le> yd * 2 powi qd" using zd zy dy by simp
  have qq: "q \<le> qd"
    by (rule normal_form_exponent_le [OF le ypos q nf yd53 qd])
  have "d = of_int (rhe yd) * (2 ^ nat (qd - q) * 2 powi q)"
    using dy ydn by (simp only: pow2_split [OF qq])
  also have "\<dots> = of_int (rhe yd * 2 ^ nat (qd - q)) * 2 powi q" by simp
  finally have dk: "d = of_int (rhe yd * 2 ^ nat (qd - q)) * 2 powi q" .
  have "y * 2 powi q \<le> of_int (rhe yd * 2 ^ nat (qd - q)) * 2 powi q"
    using zd zy dk by simp
  then have "y \<le> of_int (rhe yd * 2 ^ nat (qd - q))" by simp
  then have "rhe y \<le> rhe yd * 2 ^ nat (qd - q)" by (rule rhe_le)
  then have "(of_int (rhe y) :: real) \<le> of_int (rhe yd * 2 ^ nat (qd - q))"
    by (simp only: of_int_le_iff)
  then have "(of_int (rhe y) :: real) * 2 powi q \<le> of_int (rhe yd * 2 ^ nat (qd - q)) * 2 powi q"
    by (rule mult_right_mono) simp
  then show ?thesis using dk round64_pos [OF zpos n] by simp
qed

lemma round64_idem: "round64 (round64 x) = round64 x"
proof -
  have pos: "round64 (round64 x) = round64 x" if xpos: "0 < x" for x
  proof -
    obtain y q where n: "normalise x = (y, q)" by (cases "normalise x")
    from normalise_spec [OF xpos n]
    have q: "- 1074 \<le> q" and ypos: "0 < y" and y53: "y < 2 ^ 53" by blast+
    have r: "round64 x = of_int (rhe y) * 2 powi q" by (rule round64_pos [OF xpos n])
    have "y \<le> of_int (2 ^ 53)" using y53 by simp
    then have hi: "rhe y \<le> 2 ^ 53" by (rule rhe_le)
    have "of_int 0 \<le> y" using ypos by simp
    then have lo: "0 \<le> rhe y" by (rule rhe_ge)
    show ?thesis
    proof (cases "rhe y = 2 ^ 53")
      case False
      with hi lo have "\<bar>rhe y\<bar> < 2 ^ 53" by simp
      then show ?thesis using round64_exact [OF r _ q] by simp
    next
      case True
      have "round64 x = of_int (2 ^ 52) * 2 powi (q + 1)"
        using r True by (simp add: pow2_Suc)
      moreover have "\<bar>(2::int) ^ 52\<bar> < 2 ^ 53" by simp
      moreover have "- 1074 \<le> q + 1" using q by simp
      ultimately show ?thesis by (rule round64_exact)
    qed
  qed
  consider "x = 0" | "0 < x" | "x < 0" by linarith
  then show ?thesis
  proof cases
    case 1
    then show ?thesis by (simp add: round64_zero)
  next
    case 2
    then show ?thesis by (rule pos)
  next
    case 3
    then have "round64 (round64 (- x)) = round64 (- x)" by (intro pos) simp
    then show ?thesis by (simp add: round64_minus)
  qed
qed

subsection \<open>Results of operations\<close>

lemma fl64_cases: "fl64 z = Fin (round64 z) \<or> fl64 z = PInf \<or> fl64 z = NInf"
  by (simp add: fl64_def Let_def)

lemma fl64_not_NaN: "fl64 z \<noteq> NaN"
  by (simp add: fl64_def Let_def)

lemma fl64_in_range: "in_range z \<Longrightarrow> fl64 z = Fin (round64 z)"
  by (simp add: fl64_def in_range_def Let_def abs_less_iff)

lemma fl64_zero: "fl64 0 = Fin 0"
  by (simp add: fl64_def round64_zero)

lemma binary64_fl64: "binary64 x \<Longrightarrow> fl64 x = Fin x"
  by (simp add: binary64_def fl64_def Let_def abs_less_iff)

lemma fl64_Fin_binary64: "fl64 z = Fin t \<Longrightarrow> binary64 t"
  by (auto simp: fl64_def Let_def binary64_def round64_idem split: if_splits)

lemma binary64_of_int: "\<bar>k\<bar> < 2 ^ 53 \<Longrightarrow> binary64 (of_int k)"
proof -
  assume k: "\<bar>k\<bar> < 2 ^ 53"
  then have "\<bar>k\<bar> < 2 ^ 1024" by simp
  then have "\<bar>of_int k :: real\<bar> < of_int (2 ^ 1024)"
    by (simp only: of_int_abs [symmetric] of_int_less_iff)
  then show ?thesis using k by (simp add: binary64_def round64_of_int)
qed

section \<open>Properties of the zoom-to-level mapping\<close>

subsection \<open>The x-range\<close>

lemma Math_min_spread_Min: "vs \<noteq> [] \<Longrightarrow> Math_min_spread (map Fin vs) = Fin (Min (set vs))"
  unfolding Math_min_spread_def
proof (induction vs)
  case Nil
  then show ?case by simp
next
  case (Cons v vs)
  show ?case
  proof (cases "vs = []")
    case True
    then show ?thesis by simp
  next
    case False
    with Cons have "foldr Math_min (map Fin vs) PInf = Fin (Min (set vs))" by simp
    with False show ?thesis by (simp add: Min_insert2 min_def)
  qed
qed

lemma Math_max_spread_Max: "vs \<noteq> [] \<Longrightarrow> Math_max_spread (map Fin vs) = Fin (Max (set vs))"
  unfolding Math_max_spread_def
proof (induction vs)
  case Nil
  then show ?case by simp
next
  case (Cons v vs)
  show ?case
  proof (cases "vs = []")
    case True
    then show ?thesis by simp
  next
    case False
    with Cons have "foldr Math_max (map Fin vs) NInf = Fin (Max (set vs))" by simp
    with False show ?thesis by (simp add: Max_insert2 max_def)
  qed
qed

text \<open>The range of points with finite coordinates \<open>xs\<close>.\<close>

lemma totalRange_finite:
  "xs \<noteq> [] \<Longrightarrow> map pt_x pts = map Fin xs \<Longrightarrow> totalRange pts = fl64 (Max (set xs) - Min (set xs))"
  by (simp add: totalRange_def minX_def maxX_def Math_min_spread_Min Math_max_spread_Max)

text \<open>One NaN coordinate makes the maximum, the minimum and the range NaN.\<close>

lemma Math_max_NaN_right: "Math_max a NaN = NaN"
  by (cases a) simp_all

lemma Math_min_NaN_right: "Math_min a NaN = NaN"
  by (cases a) simp_all

lemma Math_max_spread_NaN: "NaN \<in> set vs \<Longrightarrow> Math_max_spread vs = NaN"
  unfolding Math_max_spread_def by (induction vs) (auto simp: Math_max_NaN_right)

lemma Math_min_spread_NaN: "NaN \<in> set vs \<Longrightarrow> Math_min_spread vs = NaN"
  unfolding Math_min_spread_def by (induction vs) (auto simp: Math_min_NaN_right)

lemma totalRange_NaN: "p \<in> set pts \<Longrightarrow> pt_x p = NaN \<Longrightarrow> totalRange pts = NaN"
proof -
  assume "p \<in> set pts" and "pt_x p = NaN"
  then have "NaN \<in> set (map pt_x pts)" by force
  then show ?thesis by (simp add: totalRange_def maxX_def Math_max_spread_NaN)
qed

text \<open>
  Without NaN among the arguments, infinities included, the maximum is one of the
  arguments and none of them is greater; likewise the minimum.
\<close>

lemma Math_max_cases: "Math_max a b = a \<or> Math_max a b = b"
  by (cases a; cases b) (simp_all add: max_def)

lemma Math_min_cases: "Math_min a b = a \<or> Math_min a b = b"
  by (cases a; cases b) (simp_all add: min_def)

lemma Math_max_upper:
  "a \<noteq> NaN \<Longrightarrow> b \<noteq> NaN \<Longrightarrow> \<not> jlt (Math_max a b) a \<and> \<not> jlt (Math_max a b) b"
  by (cases a; cases b) (simp_all add: max_def)

lemma Math_min_lower:
  "a \<noteq> NaN \<Longrightarrow> b \<noteq> NaN \<Longrightarrow> \<not> jlt a (Math_min a b) \<and> \<not> jlt b (Math_min a b)"
  by (cases a; cases b) (simp_all add: min_def)

lemma not_jlt_trans:
  "\<not> jlt a b \<Longrightarrow> \<not> jlt b c \<Longrightarrow> a \<noteq> NaN \<Longrightarrow> b \<noteq> NaN \<Longrightarrow> c \<noteq> NaN \<Longrightarrow> \<not> jlt a c"
  by (cases a; cases b; cases c) simp_all

lemma Math_max_spread_not_NaN: "NaN \<notin> set vs \<Longrightarrow> Math_max_spread vs \<noteq> NaN"
  unfolding Math_max_spread_def
proof (induction vs)
  case Nil
  then show ?case by simp
next
  case (Cons v vs)
  then show ?case using Math_max_cases [of v "foldr Math_max vs NInf"] by auto
qed

lemma Math_min_spread_not_NaN: "NaN \<notin> set vs \<Longrightarrow> Math_min_spread vs \<noteq> NaN"
  unfolding Math_min_spread_def
proof (induction vs)
  case Nil
  then show ?case by simp
next
  case (Cons v vs)
  then show ?case using Math_min_cases [of v "foldr Math_min vs PInf"] by auto
qed

lemma Math_max_spread_mem: "vs \<noteq> [] \<Longrightarrow> Math_max_spread vs \<in> set vs"
  unfolding Math_max_spread_def
proof (induction vs)
  case Nil
  then show ?case by simp
next
  case (Cons v vs)
  show ?case
  proof (cases "vs = []")
    case True
    then show ?thesis by (cases v) simp_all
  next
    case False
    with Cons have "foldr Math_max vs NInf \<in> set vs" by simp
    then show ?thesis using Math_max_cases [of v "foldr Math_max vs NInf"] by auto
  qed
qed

lemma Math_min_spread_mem: "vs \<noteq> [] \<Longrightarrow> Math_min_spread vs \<in> set vs"
  unfolding Math_min_spread_def
proof (induction vs)
  case Nil
  then show ?case by simp
next
  case (Cons v vs)
  show ?case
  proof (cases "vs = []")
    case True
    then show ?thesis by (cases v) simp_all
  next
    case False
    with Cons have "foldr Math_min vs PInf \<in> set vs" by simp
    then show ?thesis using Math_min_cases [of v "foldr Math_min vs PInf"] by auto
  qed
qed

lemma Math_max_spread_upper:
  "NaN \<notin> set vs \<Longrightarrow> v \<in> set vs \<Longrightarrow> \<not> jlt (Math_max_spread vs) v"
proof (induction vs)
  case Nil
  then show ?case by simp
next
  case (Cons u us)
  have s: "Math_max_spread (u # us) = Math_max u (Math_max_spread us)"
    by (simp add: Math_max_spread_def)
  have n: "u \<noteq> NaN" "Math_max_spread us \<noteq> NaN" "v \<noteq> NaN"
    using Cons.prems Math_max_spread_not_NaN [of us] by auto
  have m: "Math_max u (Math_max_spread us) \<noteq> NaN"
    using Math_max_cases [of u "Math_max_spread us"] n by auto
  show ?case
  proof (cases "v = u")
    case True
    then show ?thesis unfolding s using Math_max_upper [OF n(1,2)] by simp
  next
    case False
    then have "\<not> jlt (Math_max_spread us) v" using Cons by simp
    moreover have "\<not> jlt (Math_max u (Math_max_spread us)) (Math_max_spread us)"
      using Math_max_upper [OF n(1,2)] by simp
    ultimately show ?thesis unfolding s using not_jlt_trans n m by blast
  qed
qed

lemma Math_min_spread_lower:
  "NaN \<notin> set vs \<Longrightarrow> v \<in> set vs \<Longrightarrow> \<not> jlt v (Math_min_spread vs)"
proof (induction vs)
  case Nil
  then show ?case by simp
next
  case (Cons u us)
  have s: "Math_min_spread (u # us) = Math_min u (Math_min_spread us)"
    by (simp add: Math_min_spread_def)
  have n: "u \<noteq> NaN" "Math_min_spread us \<noteq> NaN" "v \<noteq> NaN"
    using Cons.prems Math_min_spread_not_NaN [of us] by auto
  have m: "Math_min u (Math_min_spread us) \<noteq> NaN"
    using Math_min_cases [of u "Math_min_spread us"] n by auto
  show ?case
  proof (cases "v = u")
    case True
    then show ?thesis unfolding s using Math_min_lower [OF n(1,2)] by simp
  next
    case False
    then have "\<not> jlt v (Math_min_spread us)" using Cons by simp
    moreover have "\<not> jlt (Math_min_spread us) (Math_min u (Math_min_spread us))"
      using Math_min_lower [OF n(1,2)] by simp
    ultimately show ?thesis unfolding s using not_jlt_trans n m by blast
  qed
qed

text \<open>With no point at all the range is \<open>-Infinity - Infinity\<close>.\<close>

lemma totalRange_empty: "totalRange [] = NInf"
  by (simp add: totalRange_def minX_def maxX_def Math_min_spread_def Math_max_spread_def)

text \<open>A finite difference, and so a finite range, is a number of the language.\<close>

lemma jsub_Fin_binary64: "jsub u v = Fin t \<Longrightarrow> binary64 t"
  by (cases u; cases v) (auto dest: fl64_Fin_binary64)

lemma totalRange_binary64: "totalRange pts = Fin t \<Longrightarrow> binary64 t"
  unfolding totalRange_def by (rule jsub_Fin_binary64)

lemma totalRange_same_x:
  assumes "pts \<noteq> []" and "\<forall>p\<in>set pts. pt_x p = Fin c"
  shows "totalRange pts = Fin 0"
proof -
  have m: "map pt_x pts = map Fin (map (\<lambda>p. c) pts)" using assms(2) by simp
  have n: "map (\<lambda>p. c) pts \<noteq> []" using assms(1) by simp
  have s: "set (map (\<lambda>p. c) pts) = {c}" using assms(1) by (cases pts) auto
  show ?thesis unfolding totalRange_finite [OF n m] s by (simp add: fl64_zero)
qed

subsection \<open>The clamp and the level\<close>

lemma clamp01_spec: "Math_min (Math_max v (Fin 0)) (Fin 1) = spec_clamp v (Fin 0) (Fin 1)"
  by (cases v) (auto simp: spec_clamp_def)

lemma clamp01_real:
  "Math_min (Math_max (Fin v) (Fin 0)) (Fin 1) = Fin (spec_clamp_real v 0 1)"
  by (auto simp: spec_clamp_real_def)

lemma clamp01_range:
  "v \<noteq> NaN \<Longrightarrow> \<exists>r. Math_min (Math_max v (Fin 0)) (Fin 1) = Fin r \<and> 0 \<le> r \<and> r \<le> 1"
  by (cases v) auto

lemma relativeZoom_spec:
  "relativeZoom tRange x0 x1 = spec_clamp (jdiv (jsub tRange (jsub x1 x0)) tRange) (Fin 0) (Fin 1)"
  by (simp add: relativeZoom_def clamp01_spec)

lemma handleRelayout_level:
  "currentLevel (handleRelayout params \<lparr>xaxis_range0 = Some x0, xaxis_range1 = Some x1\<rparr> st)
     = Math_floor (jmul (relativeZoom (totalRange (embeddings params)) x0 x1)
                        (maxLevel_of params))"
  by (simp add: handleRelayout_def)

text \<open>Where nothing overflows the operations are those of the reals, rounded.\<close>

lemma relativeZoom_real:
  assumes "t \<noteq> 0" and "in_range (x1 - x0)" and "in_range (t - round64 (x1 - x0))"
    and "in_range (round64 (t - round64 (x1 - x0)) / t)"
  shows "relativeZoom (Fin t) (Fin x0) (Fin x1) = Fin (spec_clamp_real (spec_quotient t x0 x1) 0 1)"
proof -
  have c: "jsub (Fin x1) (Fin x0) = Fin (round64 (x1 - x0))"
    using assms(2) by (simp add: fl64_in_range)
  have d: "jsub (Fin t) (Fin (round64 (x1 - x0))) = Fin (round64 (t - round64 (x1 - x0)))"
    using assms(3) by (simp add: fl64_in_range)
  have q: "jdiv (Fin (round64 (t - round64 (x1 - x0)))) (Fin t) = Fin (spec_quotient t x0 x1)"
    using assms(1,4) by (simp add: fl64_in_range spec_quotient_def)
  show ?thesis
    unfolding relativeZoom_def Let_def c d q by (rule clamp01_real)
qed

lemma level_real:
  assumes T: "totalRange (embeddings params) = Fin t" and t: "t \<noteq> 0"
    and m: "maxLevel_of params = Fin m"
    and n: "spec_no_overflow t x0 x1 m"
  shows "currentLevel
           (handleRelayout params \<lparr>xaxis_range0 = Some (Fin x0), xaxis_range1 = Some (Fin x1)\<rparr> st)
       = Fin (of_int (spec_level_real t x0 x1 m))"
proof -
  from n have n1: "in_range (x1 - x0)" and n2: "in_range (t - round64 (x1 - x0))"
    and n3: "in_range (round64 (t - round64 (x1 - x0)) / t)"
    and n4: "in_range (spec_clamp_real (spec_quotient t x0 x1) 0 1 * m)"
    by (simp_all add: spec_no_overflow_def)
  have "jmul (Fin (spec_clamp_real (spec_quotient t x0 x1) 0 1)) (Fin m)
      = Fin (round64 (spec_clamp_real (spec_quotient t x0 x1) 0 1 * m))"
    using n4 by (simp add: fl64_in_range)
  then show ?thesis
    by (simp add: handleRelayout_level T m relativeZoom_real [OF t n1 n2 n3] spec_level_real_def)
qed

text \<open>Over a finite range that is not zero the quotient is NaN only for a NaN width.\<close>

lemma quotient_not_NaN:
  assumes "t \<noteq> 0" and "w \<noteq> NaN"
  shows "jdiv (jsub (Fin t) w) (Fin t) \<noteq> NaN"
proof -
  have 1: "jdiv (fl64 z) (Fin t) \<noteq> NaN" for z
    using fl64_cases [of z] assms(1) by (auto simp: fl64_not_NaN split: if_splits)
  show ?thesis
  proof (cases w)
    case (Fin a)
    then show ?thesis using 1 by simp
  next
    case PInf
    then show ?thesis using assms(1) by simp
  next
    case NInf
    then show ?thesis using assms(1) by simp
  next
    case NaN
    then show ?thesis using assms(2) by simp
  qed
qed

lemma quotient_NaN: "jdiv (jsub tRange NaN) tRange = NaN"
  by (cases tRange) simp_all

lemma relativeZoom_range:
  assumes "t \<noteq> 0" and "jsub x1 x0 \<noteq> NaN"
  shows "\<exists>r. relativeZoom (Fin t) x0 x1 = Fin r \<and> 0 \<le> r \<and> r \<le> 1"
  unfolding relativeZoom_def Let_def
  by (rule clamp01_range) (rule quotient_not_NaN [OF assms])

lemma relativeZoom_NaN_width: "jsub x1 x0 = NaN \<Longrightarrow> relativeZoom tRange x0 x1 = NaN"
  by (simp add: relativeZoom_def quotient_NaN)

lemma relativeZoom_same_bound:
  assumes "binary64 t" and "t \<noteq> 0"
  shows "relativeZoom (Fin t) (Fin x0) (Fin x0) = Fin 1"
proof -
  have "binary64 1" using binary64_of_int [of 1] by simp
  then have "fl64 1 = Fin 1" by (rule binary64_fl64)
  then show ?thesis
    using assms by (simp add: relativeZoom_def fl64_zero binary64_fl64)
qed

lemma scaled_level_bounds:
  assumes r: "0 \<le> r" "r \<le> 1" and m: "0 \<le> m" "binary64 m"
  shows "Math_floor (jmul (Fin r) (Fin m)) \<in> Fin ` {0..m}"
proof -
  have z0: "0 \<le> r * m" using r(1) m(1) by simp
  have zm: "r * m \<le> m" using r m(1) by (simp add: mult_left_le_one_le)
  have rm: "round64 m = m" and mm: "m < 2 ^ 1024" using m by (simp_all add: binary64_def)
  have lo: "0 \<le> round64 (r * m)" using z0 by (rule round64_nonneg)
  have hi: "round64 (r * m) \<le> m" using z0 zm rm by (rule round64_le_exact)
  have "in_range (r * m)" using lo hi mm by (simp add: in_range_def)
  then have "jmul (Fin r) (Fin m) = Fin (round64 (r * m))" by (simp add: fl64_in_range)
  moreover have "0 \<le> (of_int \<lfloor>round64 (r * m)\<rfloor> :: real)" using lo by simp
  moreover have "(of_int \<lfloor>round64 (r * m)\<rfloor> :: real) \<le> m"
  proof -
    have "(of_int \<lfloor>round64 (r * m)\<rfloor> :: real) \<le> round64 (r * m)" by simp
    with hi show ?thesis by linarith
  qed
  ultimately show ?thesis by simp
qed

lemma jlt_zero_Fin: "jlt (Fin 0) v \<Longrightarrow> v \<noteq> PInf \<Longrightarrow> \<exists>T. v = Fin T \<and> 0 < T"
  by (cases v) auto

subsection \<open>An input on which rounding shows\<close>

text \<open>
  Points at \<open>x = 0\<close> and \<open>x = 22\<close>, \<open>maxLevel = 22\<close>, bounds \<open>[0, 7]\<close>: the quotient
  \<open>15 / 22\<close> rounds down, its product with \<open>22\<close> rounds to the number just below
  \<open>15\<close>, and the level is \<open>14\<close>, where the formula over the reals with no rounding
  gives \<open>15\<close>.
\<close>

lemma example_quotient: "round64 (15 / 22) = 6141272219141585 / 2 ^ 53"
  by (simp add: round64_def normalise_def norm_up.simps norm_down.simps rhe_def power_int_def
        power_divide)

lemma example_product: "round64 (6141272219141585 / 2 ^ 53 * 22) = 8444249301319679 / 2 ^ 49"
  by (simp add: round64_def normalise_def norm_up.simps norm_down.simps rhe_def power_int_def
        power_divide)

lemma example_clamped:
  "spec_quotient 22 0 7 = 6141272219141585 / 2 ^ 53"
  "spec_clamp_real (spec_quotient 22 0 7) 0 1 = 6141272219141585 / 2 ^ 53"
proof -
  have "round64 7 = 7" using round64_of_int [of 7] by simp
  moreover have "round64 15 = 15" using round64_of_int [of 15] by simp
  ultimately show q: "spec_quotient 22 0 7 = 6141272219141585 / 2 ^ 53"
    by (simp add: spec_quotient_def example_quotient)
  show "spec_clamp_real (spec_quotient 22 0 7) 0 1 = 6141272219141585 / 2 ^ 53"
    unfolding q by (simp add: spec_clamp_real_def)
qed

lemma example_spec_level_real: "spec_level_real 22 0 7 22 = 14"
  unfolding spec_level_real_def example_clamped(2) example_product by simp

lemma example_no_overflow: "spec_no_overflow 22 0 7 22"
proof -
  have r7: "round64 7 = 7" using round64_of_int [of 7] by simp
  have r15: "round64 15 = 15" using round64_of_int [of 15] by simp
  have n1: "in_range (7 - 0)" by (simp add: in_range_def r7)
  have n2: "in_range (22 - round64 (7 - 0))" by (simp add: in_range_def r7 r15)
  have n3: "in_range (round64 (22 - round64 (7 - 0)) / 22)"
    by (simp add: in_range_def r7 r15 example_quotient)
  have n4: "in_range (spec_clamp_real (spec_quotient 22 0 7) 0 1 * 22)"
    unfolding example_clamped(2) in_range_def example_product by simp
  show ?thesis
    unfolding spec_no_overflow_def using n1 n2 n3 n4 by blast
qed

lemma example_totalRange:
  "totalRange [\<lparr>pt_x = Fin 0, pt_y = Fin 0, clusters = []\<rparr>, \<lparr>pt_x = Fin 22, pt_y = Fin 1, clusters = []\<rparr>] = Fin 22"
proof -
  have "binary64 22" using binary64_of_int [of 22] by simp
  then have "fl64 22 = Fin 22" by (rule binary64_fl64)
  then show ?thesis
    by (simp add: totalRange_def maxX_def minX_def Math_max_spread_def Math_min_spread_def)
qed

lemma example_exact_formula:
  "\<lfloor>spec_clamp_real ((22 - (7 - 0)) / 22) 0 1 * 22\<rfloor> = (15::int)"
  by (simp add: spec_clamp_real_def)

text \<open>
  Points at \<open>x = 0\<close> and \<open>x = 1\<close>, the default \<open>maxLevel = 10\<close>, bounds \<open>[0, 0.1]\<close>: the
  level is \<open>9\<close> (the rounded \<open>1 - 0.1\<close> times \<open>10\<close> rounds to \<open>9\<close>).
\<close>

lemma example_level_tenth:
  "currentLevel
     (handleRelayout
        \<lparr>embeddings = [\<lparr>pt_x = Fin 0, pt_y = Fin 0, clusters = []\<rparr>, \<lparr>pt_x = Fin 1, pt_y = Fin 1, clusters = []\<rparr>],
         maxLevel = None, sliderMax = None\<rparr>
        \<lparr>xaxis_range0 = Some (Fin 0), xaxis_range1 = Some (Fin (1 / 10))\<rparr> initial_state)
   = Fin 9"
  by (simp add: handleRelayout_def relativeZoom_def totalRange_def maxX_def minX_def
        Math_max_spread_def Math_min_spread_def maxLevel_of_def fl64_def
        round64_def normalise_def norm_up.simps norm_down.simps rhe_def power_int_def power_divide)

text \<open>
  C1. On a relayout event that carries both x-axis bounds \<open>x0\<close> and \<open>x1\<close>, whatever the
  embeddings, the bounds and \<open>maxLevel\<close>, the handler changes \<open>currentLevel\<close> only, to
  \<open>floor(clamp((totalXRange - (x1 - x0)) / totalXRange, 0, 1) * maxLevel)\<close> in the
  arithmetic of the language, where \<open>totalXRange\<close> is the maximum minus the minimum of
  the x-coordinates of all points (for finite coordinates \<open>xs\<close>, the rounded
  \<open>Max xs - Min xs\<close>). Where the range, the bounds and \<open>maxLevel\<close> are finite, the range
  is not zero and no operation overflows, that level is the floor, over the reals, of the
  rounded product of \<open>maxLevel\<close> with the clamp of the rounded quotient.
\<close>

theorem relayout_sets_level_by_formula:
  "handleRelayout params \<lparr>xaxis_range0 = Some x0, xaxis_range1 = Some x1\<rparr> st
     = st\<lparr>currentLevel :=
          spec_level (totalRange (embeddings params)) x0 x1 (maxLevel_of params)\<rparr>
   \<and> (xs \<noteq> [] \<and> map pt_x (embeddings params) = map Fin xs \<longrightarrow>
        totalRange (embeddings params) = fl64 (Max (set xs) - Min (set xs)))
   \<and> (totalRange (embeddings params) = Fin t \<and> t \<noteq> 0 \<and> maxLevel_of params = Fin m
        \<and> spec_no_overflow t a b m \<longrightarrow>
        handleRelayout params \<lparr>xaxis_range0 = Some (Fin a), xaxis_range1 = Some (Fin b)\<rparr> st
          = st\<lparr>currentLevel := Fin (of_int (spec_level_real t a b m))\<rparr>)"
proof (intro conjI impI)
  show "handleRelayout params \<lparr>xaxis_range0 = Some x0, xaxis_range1 = Some x1\<rparr> st
     = st\<lparr>currentLevel :=
          spec_level (totalRange (embeddings params)) x0 x1 (maxLevel_of params)\<rparr>"
    by (simp add: handleRelayout_def spec_level_def relativeZoom_spec)
next
  assume "xs \<noteq> [] \<and> map pt_x (embeddings params) = map Fin xs"
  then show "totalRange (embeddings params) = fl64 (Max (set xs) - Min (set xs))"
    by (intro totalRange_finite) simp_all
next
  assume a: "totalRange (embeddings params) = Fin t \<and> t \<noteq> 0 \<and> maxLevel_of params = Fin m
        \<and> spec_no_overflow t a b m"
  have frame: "handleRelayout params \<lparr>xaxis_range0 = Some (Fin a), xaxis_range1 = Some (Fin b)\<rparr> st
      = st\<lparr>currentLevel :=
           currentLevel
             (handleRelayout params \<lparr>xaxis_range0 = Some (Fin a), xaxis_range1 = Some (Fin b)\<rparr> st)\<rparr>"
    by (simp add: handleRelayout_def)
  from a have "currentLevel
        (handleRelayout params \<lparr>xaxis_range0 = Some (Fin a), xaxis_range1 = Some (Fin b)\<rparr> st)
       = Fin (of_int (spec_level_real t a b m))"
    by (intro level_real) simp_all
  with frame show "handleRelayout params \<lparr>xaxis_range0 = Some (Fin a), xaxis_range1 = Some (Fin b)\<rparr> st
          = st\<lparr>currentLevel := Fin (of_int (spec_level_real t a b m))\<rparr>"
    by simp
qed

theorem relayout_sets_level_by_formula_witness:
  "totalRange [\<lparr>pt_x = Fin 0, pt_y = Fin 0, clusters = []\<rparr>, \<lparr>pt_x = Fin 22, pt_y = Fin 1, clusters = []\<rparr>]
     = Fin 22
   \<and> fl64 (Max (set [0, 22]) - Min (set [0, 22])) = Fin 22
   \<and> spec_no_overflow 22 0 7 22
   \<and> spec_level_real 22 0 7 22 = 14
   \<and> handleRelayout
        \<lparr>embeddings = [\<lparr>pt_x = Fin 0, pt_y = Fin 0, clusters = []\<rparr>,
                       \<lparr>pt_x = Fin 22, pt_y = Fin 1, clusters = []\<rparr>],
         maxLevel = Some (Fin 22), sliderMax = None\<rparr>
        \<lparr>xaxis_range0 = Some (Fin 0), xaxis_range1 = Some (Fin 7)\<rparr> initial_state
      = initial_state\<lparr>currentLevel := Fin 14\<rparr>"
proof -
  let ?params = "\<lparr>embeddings = [\<lparr>pt_x = Fin 0, pt_y = Fin 0, clusters = []\<rparr>,
                                 \<lparr>pt_x = Fin 22, pt_y = Fin 1, clusters = []\<rparr>],
                  maxLevel = Some (Fin 22), sliderMax = None\<rparr>"
  have m: "maxLevel_of ?params = Fin 22" by (simp add: maxLevel_of_def)
  have e: "embeddings ?params
      = [\<lparr>pt_x = Fin 0, pt_y = Fin 0, clusters = []\<rparr>, \<lparr>pt_x = Fin 22, pt_y = Fin 1, clusters = []\<rparr>]"
    by simp
  have x: "[0, 22] \<noteq> ([] :: real list) \<and> map pt_x (embeddings ?params) = map Fin [0, 22]"
    by simp
  have h: "totalRange (embeddings ?params) = Fin 22 \<and> (22::real) \<noteq> 0
        \<and> maxLevel_of ?params = Fin 22 \<and> spec_no_overflow 22 0 7 22"
    by (simp add: m example_totalRange example_no_overflow)
  note inst = relayout_sets_level_by_formula [of ?params "Fin 0" "Fin 7" initial_state "[0, 22]" 22 22 0 7]
  from inst x have r: "totalRange (embeddings ?params) = fl64 (Max (set [0, 22]) - Min (set [0, 22]))"
    by blast
  from inst h
  have l: "handleRelayout ?params \<lparr>xaxis_range0 = Some (Fin 0), xaxis_range1 = Some (Fin 7)\<rparr> initial_state
      = initial_state\<lparr>currentLevel := Fin (of_int (spec_level_real 22 0 7 22))\<rparr>"
    by blast
  have "fl64 (Max (set [0, 22]) - Min (set [0, 22])) = Fin 22"
    using r unfolding e example_totalRange by simp
  with l show ?thesis
    by (simp add: example_totalRange example_no_overflow example_spec_level_real)
qed

text \<open>
  C2, as amended. For a zoom event with both bounds whose width \<open>x1 - x0\<close> is not NaN, on
  embeddings whose x-range is finite and positive, and for a finite \<open>maxLevel\<close> that is
  not negative, \<open>relativeZoom\<close> lies in \<open>[0, 1]\<close> (it is \<open>1\<close> when the bounds are one
  finite number) and the resulting \<open>currentLevel\<close> lies in \<open>[0, maxLevel]\<close>. The
  hypothesis \<open>binary64 m\<close> says that \<open>maxLevel\<close> is a number of the language.
\<close>

theorem relayout_level_in_range:
  assumes "jlt (Fin 0) (totalRange (embeddings params))"
    and "totalRange (embeddings params) \<noteq> PInf"
    and "jsub x1 x0 \<noteq> NaN"
    and "maxLevel_of params = Fin m"
    and "0 \<le> m"
    and "binary64 m"
  shows "relativeZoom (totalRange (embeddings params)) x0 x1 \<in> Fin ` {0..1}
       \<and> relativeZoom (totalRange (embeddings params)) (Fin a) (Fin a) = Fin 1
       \<and> currentLevel (handleRelayout params \<lparr>xaxis_range0 = Some x0, xaxis_range1 = Some x1\<rparr> st)
            \<in> Fin ` {0..m}"
proof -
  obtain t where T: "totalRange (embeddings params) = Fin t" and tpos: "0 < t"
    using jlt_zero_Fin [OF assms(1,2)] by blast
  have t0: "t \<noteq> 0" using tpos by simp
  obtain r where rz: "relativeZoom (Fin t) x0 x1 = Fin r" and r01: "0 \<le> r" "r \<le> 1"
    using relativeZoom_range [OF t0 assms(3)] by blast
  have same: "relativeZoom (Fin t) (Fin a) (Fin a) = Fin 1"
    using totalRange_binary64 [OF T] t0 by (rule relativeZoom_same_bound)
  have "Math_floor (jmul (Fin r) (Fin m)) \<in> Fin ` {0..m}"
    using r01 assms(5,6) by (rule scaled_level_bounds)
  then have "currentLevel (handleRelayout params \<lparr>xaxis_range0 = Some x0, xaxis_range1 = Some x1\<rparr> st)
      \<in> Fin ` {0..m}"
    by (simp only: handleRelayout_level T rz assms(4))
  with rz r01 same show ?thesis by (simp add: T)
qed

lemma example_totalRange_4:
  "totalRange [\<lparr>pt_x = Fin 0, pt_y = Fin 0, clusters = []\<rparr>, \<lparr>pt_x = Fin 4, pt_y = Fin 1, clusters = []\<rparr>] = Fin 4"
proof -
  have "binary64 4" using binary64_of_int [of 4] by simp
  then have "fl64 4 = Fin 4" by (rule binary64_fl64)
  then show ?thesis
    by (simp add: totalRange_def maxX_def minX_def Math_max_spread_def Math_min_spread_def)
qed

theorem relayout_level_in_range_witness:
  "jlt (Fin 0) (totalRange [\<lparr>pt_x = Fin 0, pt_y = Fin 0, clusters = []\<rparr>,
                            \<lparr>pt_x = Fin 4, pt_y = Fin 1, clusters = []\<rparr>])
   \<and> totalRange [\<lparr>pt_x = Fin 0, pt_y = Fin 0, clusters = []\<rparr>,
                  \<lparr>pt_x = Fin 4, pt_y = Fin 1, clusters = []\<rparr>] \<noteq> PInf
   \<and> jsub (Fin 2) (Fin 1) \<noteq> NaN
   \<and> (0::real) \<le> 3 \<and> binary64 3
   \<and> relativeZoom (totalRange [\<lparr>pt_x = Fin 0, pt_y = Fin 0, clusters = []\<rparr>,
                                \<lparr>pt_x = Fin 4, pt_y = Fin 1, clusters = []\<rparr>])
        (Fin 1) (Fin 2) \<in> Fin ` {0..1}
   \<and> currentLevel
        (handleRelayout
           \<lparr>embeddings = [\<lparr>pt_x = Fin 0, pt_y = Fin 0, clusters = []\<rparr>,
                          \<lparr>pt_x = Fin 4, pt_y = Fin 1, clusters = []\<rparr>],
            maxLevel = Some (Fin 3), sliderMax = None\<rparr>
           \<lparr>xaxis_range0 = Some (Fin 1), xaxis_range1 = Some (Fin 2)\<rparr> initial_state)
        \<in> Fin ` {0..3}"
proof -
  let ?params = "\<lparr>embeddings = [\<lparr>pt_x = Fin 0, pt_y = Fin 0, clusters = []\<rparr>,
                                 \<lparr>pt_x = Fin 4, pt_y = Fin 1, clusters = []\<rparr>],
                  maxLevel = Some (Fin 3), sliderMax = None\<rparr>"
  have m: "maxLevel_of ?params = Fin 3" by (simp add: maxLevel_of_def)
  have e: "embeddings ?params
      = [\<lparr>pt_x = Fin 0, pt_y = Fin 0, clusters = []\<rparr>, \<lparr>pt_x = Fin 4, pt_y = Fin 1, clusters = []\<rparr>]"
    by simp
  have b3: "binary64 3" using binary64_of_int [of 3] by simp
  have h1: "jlt (Fin 0) (totalRange (embeddings ?params))"
    and h2: "totalRange (embeddings ?params) \<noteq> PInf"
    by (simp_all add: example_totalRange_4)
  have h3: "jsub (Fin 2) (Fin 1) \<noteq> NaN" by (simp add: fl64_not_NaN)
  have h5: "(0::real) \<le> 3" by simp
  from relayout_level_in_range [OF h1 h2 h3 m h5 b3, of 0 initial_state] h1 h2 h3 b3
  show ?thesis unfolding e by simp
qed

text \<open>
  The claim as first stated asks only for both bounds and a positive range. It fails for
  a negative \<open>maxLevel\<close> (points at \<open>0\<close> and \<open>4\<close>, \<open>maxLevel = -3\<close>, bounds \<open>[1, 1]\<close>: the
  level is \<open>-3\<close>), for a range that overflows (points at \<open>-2\<^sup>1\<^sup>0\<^sup>2\<^sup>3\<close> and \<open>2\<^sup>1\<^sup>0\<^sup>2\<^sup>3\<close>,
  bounds \<open>[0, 1]\<close>: the range is \<open>Infinity\<close>, which is positive, and the level is NaN),
  for a bound that is NaN (points at \<open>0\<close> and \<open>4\<close>, bounds \<open>[NaN, 1]\<close>: the level is NaN)
  and for an infinite \<open>maxLevel\<close> (points at \<open>0\<close> and \<open>4\<close>, bounds \<open>[0, 4]\<close>: \<open>relativeZoom\<close>
  is \<open>0\<close> and the level \<open>0 * Infinity\<close> is NaN).
\<close>

lemma example_totalRange_overflow:
  "totalRange [\<lparr>pt_x = Fin (- (2 ^ 1023)), pt_y = Fin 0, clusters = []\<rparr>,
               \<lparr>pt_x = Fin (2 ^ 1023), pt_y = Fin 1, clusters = []\<rparr>] = PInf"
proof -
  have "round64 (of_int 1 * 2 powi 1024) = of_int 1 * 2 powi 1024"
    by (rule round64_exact [OF refl]) simp_all
  then have r: "round64 (2 ^ 1024) = 2 ^ 1024" by (simp add: power_int_def)
  have "(2::real) ^ 1023 - - (2 ^ 1023) = 2 ^ 1024" by simp
  then have "fl64 (2 ^ 1023 - - (2 ^ 1023)) = PInf"
    by (simp only: fl64_def r Let_def) simp
  then show ?thesis
    by (simp add: totalRange_def maxX_def minX_def Math_max_spread_def Math_min_spread_def)
qed

theorem relayout_level_out_of_range_counterexample:
  "jlt (Fin 0) (totalRange [\<lparr>pt_x = Fin 0, pt_y = Fin 0, clusters = []\<rparr>,
                            \<lparr>pt_x = Fin 4, pt_y = Fin 1, clusters = []\<rparr>])
   \<and> currentLevel
        (handleRelayout
           \<lparr>embeddings = [\<lparr>pt_x = Fin 0, pt_y = Fin 0, clusters = []\<rparr>,
                          \<lparr>pt_x = Fin 4, pt_y = Fin 1, clusters = []\<rparr>],
            maxLevel = Some (Fin (- 3)), sliderMax = None\<rparr>
           \<lparr>xaxis_range0 = Some (Fin 1), xaxis_range1 = Some (Fin 1)\<rparr> initial_state)
       = Fin (- 3)
   \<and> Fin (- 3) \<notin> Fin ` {0..- 3}
   \<and> jlt (Fin 0) (totalRange [\<lparr>pt_x = Fin (- (2 ^ 1023)), pt_y = Fin 0, clusters = []\<rparr>,
                                \<lparr>pt_x = Fin (2 ^ 1023), pt_y = Fin 1, clusters = []\<rparr>])
   \<and> currentLevel
        (handleRelayout
           \<lparr>embeddings = [\<lparr>pt_x = Fin (- (2 ^ 1023)), pt_y = Fin 0, clusters = []\<rparr>,
                          \<lparr>pt_x = Fin (2 ^ 1023), pt_y = Fin 1, clusters = []\<rparr>],
            maxLevel = None, sliderMax = None\<rparr>
           \<lparr>xaxis_range0 = Some (Fin 0), xaxis_range1 = Some (Fin 1)\<rparr> initial_state)
       = NaN
   \<and> currentLevel
        (handleRelayout
           \<lparr>embeddings = [\<lparr>pt_x = Fin 0, pt_y = Fin 0, clusters = []\<rparr>,
                          \<lparr>pt_x = Fin 4, pt_y = Fin 1, clusters = []\<rparr>],
            maxLevel = None, sliderMax = None\<rparr>
           \<lparr>xaxis_range0 = Some NaN, xaxis_range1 = Some (Fin 1)\<rparr> initial_state)
       = NaN
   \<and> currentLevel
        (handleRelayout
           \<lparr>embeddings = [\<lparr>pt_x = Fin 0, pt_y = Fin 0, clusters = []\<rparr>,
                          \<lparr>pt_x = Fin 4, pt_y = Fin 1, clusters = []\<rparr>],
            maxLevel = Some PInf, sliderMax = None\<rparr>
           \<lparr>xaxis_range0 = Some (Fin 0), xaxis_range1 = Some (Fin 4)\<rparr> initial_state)
       = NaN
   \<and> NaN \<notin> range Fin"
proof -
  have b: "fl64 0 = Fin 0" "fl64 1 = Fin 1" "fl64 4 = Fin 4" "fl64 (- 3) = Fin (- 3)"
    using binary64_of_int [of 1] binary64_of_int [of 4] binary64_of_int [of "- 3"]
    by (simp_all add: fl64_zero binary64_fl64)
  have z1: "relativeZoom (Fin 4) (Fin 1) (Fin 1) = Fin 1"
    by (simp add: relativeZoom_def b)
  have l1: "currentLevel
        (handleRelayout
           \<lparr>embeddings = [\<lparr>pt_x = Fin 0, pt_y = Fin 0, clusters = []\<rparr>,
                          \<lparr>pt_x = Fin 4, pt_y = Fin 1, clusters = []\<rparr>],
            maxLevel = Some (Fin (- 3)), sliderMax = None\<rparr>
           \<lparr>xaxis_range0 = Some (Fin 1), xaxis_range1 = Some (Fin 1)\<rparr> initial_state)
       = Fin (- 3)"
    by (simp add: handleRelayout_level example_totalRange_4 z1 maxLevel_of_def b)
  have z2: "relativeZoom PInf (Fin 0) (Fin 1) = NaN"
    by (simp add: relativeZoom_def b)
  have l2: "currentLevel
        (handleRelayout
           \<lparr>embeddings = [\<lparr>pt_x = Fin (- (2 ^ 1023)), pt_y = Fin 0, clusters = []\<rparr>,
                          \<lparr>pt_x = Fin (2 ^ 1023), pt_y = Fin 1, clusters = []\<rparr>],
            maxLevel = None, sliderMax = None\<rparr>
           \<lparr>xaxis_range0 = Some (Fin 0), xaxis_range1 = Some (Fin 1)\<rparr> initial_state)
       = NaN"
    by (simp only: handleRelayout_level ClusterPlotType.simps example_totalRange_overflow z2)
       simp
  have z3: "relativeZoom (Fin 4) NaN (Fin 1) = NaN"
    by (simp add: relativeZoom_def)
  have l3: "currentLevel
        (handleRelayout
           \<lparr>embeddings = [\<lparr>pt_x = Fin 0, pt_y = Fin 0, clusters = []\<rparr>,
                          \<lparr>pt_x = Fin 4, pt_y = Fin 1, clusters = []\<rparr>],
            maxLevel = None, sliderMax = None\<rparr>
           \<lparr>xaxis_range0 = Some NaN, xaxis_range1 = Some (Fin 1)\<rparr> initial_state)
       = NaN"
    by (simp only: handleRelayout_level ClusterPlotType.simps example_totalRange_4 z3) simp
  have z4: "relativeZoom (Fin 4) (Fin 0) (Fin 4) = Fin 0"
    by (simp add: relativeZoom_def b)
  have l4: "currentLevel
        (handleRelayout
           \<lparr>embeddings = [\<lparr>pt_x = Fin 0, pt_y = Fin 0, clusters = []\<rparr>,
                          \<lparr>pt_x = Fin 4, pt_y = Fin 1, clusters = []\<rparr>],
            maxLevel = Some PInf, sliderMax = None\<rparr>
           \<lparr>xaxis_range0 = Some (Fin 0), xaxis_range1 = Some (Fin 4)\<rparr> initial_state)
       = NaN"
    by (simp add: handleRelayout_level example_totalRange_4 z4 maxLevel_of_def)
  show ?thesis
    by (simp only: l1 l2 l3 l4 example_totalRange_4 example_totalRange_overflow) auto
qed

text \<open>
  C3. When either x-axis bound is absent from the event, the relayout handler leaves the
  whole state (\<open>currentLevel\<close>, \<open>densityThreshold\<close>, \<open>selectedCluster\<close>) as it was.
\<close>

theorem relayout_absent_bound_noop:
  assumes "xaxis_range0 event = None \<or> xaxis_range1 event = None"
  shows "handleRelayout params event st = st"
  using assms by (auto simp: handleRelayout_def split: option.splits)

theorem relayout_absent_bound_noop_witness:
  "handleRelayout \<lparr>embeddings = [\<lparr>pt_x = Fin 0, pt_y = Fin 0, clusters = []\<rparr>], maxLevel = None, sliderMax = None\<rparr>
     \<lparr>xaxis_range0 = None, xaxis_range1 = Some (Fin 7)\<rparr>
     \<lparr>currentLevel = Fin 2, densityThreshold = 3, selectedCluster = Val (Str ''A'')\<rparr>
   = \<lparr>currentLevel = Fin 2, densityThreshold = 3, selectedCluster = Val (Str ''A'')\<rparr>"
  using relayout_absent_bound_noop
    [of "\<lparr>xaxis_range0 = None, xaxis_range1 = Some (Fin 7)\<rparr>"
        "\<lparr>embeddings = [\<lparr>pt_x = Fin 0, pt_y = Fin 0, clusters = []\<rparr>], maxLevel = None, sliderMax = None\<rparr>"
        "\<lparr>currentLevel = Fin 2, densityThreshold = 3, selectedCluster = Val (Str ''A'')\<rparr>"]
  by simp

lemma div_by_zero_not_finite: "jdiv v (Fin 0) \<notin> range Fin"
  by (cases v) auto

text \<open>
  C8. For embeddings whose points all share one x-coordinate (a finite number) the
  x-range is \<open>0\<close>, the handler divides by it with no guard (whatever the bounds, the
  quotient is never finite), and a zoom event (one with \<open>x0 = x1\<close>, whatever that value)
  yields NaN as \<open>relativeZoom\<close> and as the new \<open>currentLevel\<close>; the handler has no error
  branch, it stores the value.
\<close>

theorem zero_range_zoom_is_NaN:
  assumes "embeddings params \<noteq> []" and "\<forall>p\<in>set (embeddings params). pt_x p = Fin c"
  shows "totalRange (embeddings params) = Fin 0
       \<and> jdiv (jsub (totalRange (embeddings params)) (jsub x1 x0))
               (totalRange (embeddings params)) \<notin> range Fin
       \<and> relativeZoom (totalRange (embeddings params)) b b = NaN
       \<and> currentLevel (handleRelayout params \<lparr>xaxis_range0 = Some b, xaxis_range1 = Some b\<rparr> st) = NaN"
proof -
  have T: "totalRange (embeddings params) = Fin 0"
    using totalRange_same_x [OF assms] .
  have z: "relativeZoom (Fin 0) b b = NaN"
    by (cases b) (simp_all add: relativeZoom_def fl64_zero)
  have "currentLevel (handleRelayout params \<lparr>xaxis_range0 = Some b, xaxis_range1 = Some b\<rparr> st) = NaN"
    by (simp add: handleRelayout_level T z)
  with T z div_by_zero_not_finite show ?thesis by simp
qed

theorem zero_range_zoom_is_NaN_witness:
  "relativeZoom (totalRange [\<lparr>pt_x = Fin 2, pt_y = Fin 0, clusters = []\<rparr>,
                              \<lparr>pt_x = Fin 2, pt_y = Fin 1, clusters = []\<rparr>]) (Fin 5) (Fin 5) = NaN
   \<and> currentLevel
        (handleRelayout
           \<lparr>embeddings = [\<lparr>pt_x = Fin 2, pt_y = Fin 0, clusters = []\<rparr>,
                          \<lparr>pt_x = Fin 2, pt_y = Fin 1, clusters = []\<rparr>],
            maxLevel = None, sliderMax = None\<rparr>
           \<lparr>xaxis_range0 = Some (Fin 5), xaxis_range1 = Some (Fin 5)\<rparr> initial_state) = NaN"
proof -
  let ?params = "\<lparr>embeddings = [\<lparr>pt_x = Fin 2, pt_y = Fin 0, clusters = []\<rparr>,
                                 \<lparr>pt_x = Fin 2, pt_y = Fin 1, clusters = []\<rparr>],
                  maxLevel = None, sliderMax = None\<rparr>"
  have h1: "embeddings ?params \<noteq> []" by simp
  have h2: "\<forall>p\<in>set (embeddings ?params). pt_x p = Fin 2" by simp
  have e: "embeddings ?params
      = [\<lparr>pt_x = Fin 2, pt_y = Fin 0, clusters = []\<rparr>, \<lparr>pt_x = Fin 2, pt_y = Fin 1, clusters = []\<rparr>]"
    by simp
  from zero_range_zoom_is_NaN [OF h1 h2, of "Fin 5" "Fin 5" "Fin 5" initial_state]
  show ?thesis unfolding e by blast
qed

text \<open>
  On a zero range an event whose rounded width \<open>x1 - x0\<close> is not zero gives an infinite
  quotient, which the clamp turns into \<open>0\<close> or \<open>1\<close>: the level is then finite.
\<close>

lemma zero_range_zoom_clamped:
  "0 < round64 (x1 - x0) \<Longrightarrow> relativeZoom (Fin 0) (Fin x0) (Fin x1) = Fin 0"
  "round64 (x1 - x0) < 0 \<Longrightarrow> relativeZoom (Fin 0) (Fin x0) (Fin x1) = Fin 1"
proof -
  have neg: "jdiv (fl64 z) (Fin 0) = NInf" if "round64 z < 0" for z
    using that by (auto simp: fl64_def Let_def)
  have pos: "jdiv (fl64 z) (Fin 0) = PInf" if "0 < round64 z" for z
    using that by (auto simp: fl64_def Let_def)
  {
    assume a: "0 < round64 (x1 - x0)"
    have "jdiv (jsub (Fin 0) (fl64 (x1 - x0))) (Fin 0) = NInf"
    proof (cases "fl64 (x1 - x0) = Fin (round64 (x1 - x0))")
      case True
      have "round64 (0 - round64 (x1 - x0)) < 0"
        using a by (simp add: round64_minus round64_idem)
      then show ?thesis using True by (simp add: neg)
    next
      case False
      with fl64_cases [of "x1 - x0"] a have "fl64 (x1 - x0) = PInf"
        by (auto simp: fl64_def Let_def split: if_splits)
      then show ?thesis by simp
    qed
    then show "relativeZoom (Fin 0) (Fin x0) (Fin x1) = Fin 0" by (simp add: relativeZoom_def)
  }
  {
    assume a: "round64 (x1 - x0) < 0"
    have "jdiv (jsub (Fin 0) (fl64 (x1 - x0))) (Fin 0) = PInf"
    proof (cases "fl64 (x1 - x0) = Fin (round64 (x1 - x0))")
      case True
      have "0 < round64 (0 - round64 (x1 - x0))"
        using a by (simp add: round64_minus round64_idem)
      then show ?thesis using True by (simp add: pos)
    next
      case False
      with fl64_cases [of "x1 - x0"] a have "fl64 (x1 - x0) = NInf"
        by (auto simp: fl64_def Let_def split: if_splits)
      then show ?thesis by simp
    qed
    then show "relativeZoom (Fin 0) (Fin x0) (Fin x1) = Fin 1" by (simp add: relativeZoom_def)
  }
qed

section \<open>Properties of the density filter\<close>

subsection \<open>What the counting loop leaves in \<open>counts\<close>\<close>

lemma getProp_setProp:
  "getProp (setProp own k0 v) k =
     (if k = ''__proto__'' then getProp own k else if k = k0 then v else getProp own k)"
  by (cases "k = ''__proto__''") (auto simp: getProp_def setProp_def)

lemma getProp_countClusters:
  "getProp (countClusters numToString lvl pts own) k =
     (if k = ''__proto__'' then getProp own k
      else (orZeroPlusOne ^^ length (filter (\<lambda>q. propertyKey numToString (cluster_at lvl q) = k) pts))
             (getProp own k))"
proof (induction pts arbitrary: own)
  case Nil
  then show ?case by simp
next
  case (Cons pt pts)
  then show ?case
    by (simp add: Let_def getProp_setProp funpow_swap1)
qed

lemma getProp_empty:
  "getProp Map.empty k = (if k \<in> set objectPrototypeKeys then PObject else PUndefined)"
  by (simp add: getProp_def)

lemma funpow_PUndefined:
  "(orZeroPlusOne ^^ n) PUndefined = (if n = 0 then PUndefined else PNumber n)"
proof (induction n)
  case 0
  then show ?case by simp
next
  case (Suc n)
  then show ?case by (cases n) simp_all
qed

lemma funpow_PObject:
  "(orZeroPlusOne ^^ n) PObject = (if n = 0 then PObject else PString)"
proof (induction n)
  case 0
  then show ?case by simp
next
  case (Suc n)
  then show ?case by (cases n) simp_all
qed

lemma proto_in_keys: "''__proto__'' \<in> set objectPrototypeKeys"
  by (simp add: objectPrototypeKeys_def)

lemma geThreshold_counts:
  "geThreshold (getProp (countClusters numToString lvl pts Map.empty) k) t \<longleftrightarrow>
     k \<notin> set objectPrototypeKeys
     \<and> 0 < length (filter (\<lambda>q. propertyKey numToString (cluster_at lvl q) = k) pts)
     \<and> t \<le> real (length (filter (\<lambda>q. propertyKey numToString (cluster_at lvl q) = k) pts))"
  using proto_in_keys
  by (auto simp: getProp_countClusters getProp_empty funpow_PUndefined funpow_PObject)

text \<open>
  The exact behaviour of the filter: a point is retained if and only if the property
  key of its cluster id is not a name inherited from \<^verbatim>\<open>Object.prototype\<close> and the number
  of points whose id has the same property key reaches the threshold.
\<close>

lemma filteredData_iff:
  "pt \<in> set (filteredData numToString embs lvl t) \<longleftrightarrow>
     pt \<in> set embs
     \<and> propertyKey numToString (cluster_at lvl pt) \<notin> set objectPrototypeKeys
     \<and> t \<le> real (length (filter (\<lambda>q. propertyKey numToString (cluster_at lvl q)
                                         = propertyKey numToString (cluster_at lvl pt)) embs))"
proof -
  have "pt \<in> set embs \<Longrightarrow>
     0 < length (filter (\<lambda>q. propertyKey numToString (cluster_at lvl q)
                                         = propertyKey numToString (cluster_at lvl pt)) embs)"
    by (auto simp: filter_empty_conv)
  then show ?thesis
    by (auto simp: filteredData_def geThreshold_counts)
qed

lemma geThreshold_mono: "geThreshold p t2 \<Longrightarrow> t1 \<le> t2 \<Longrightarrow> geThreshold p t1"
  by (cases p) auto

lemma filter_filter_weaker:
  "(\<And>x. P x \<Longrightarrow> Q x) \<Longrightarrow> filter P xs = filter P (filter Q xs)"
  by (induction xs) auto

text \<open>
  Where no cluster id at the level has an inherited name as its key and distinct ids
  have distinct keys, the filter is the one the specification describes.
\<close>

lemma filteredData_spec_when_keys_clean:
  assumes clean: "\<forall>q\<in>set embs. propertyKey numToString (cluster_at lvl q) \<notin> set objectPrototypeKeys"
    and inj: "inj_on (propertyKey numToString) (cluster_at lvl ` set embs)"
  shows "pt \<in> set (filteredData numToString embs lvl t) \<longleftrightarrow> spec_retained embs lvl t pt"
proof (cases "pt \<in> set embs")
  case False
  then show ?thesis by (simp add: filteredData_iff spec_retained_def)
next
  case True
  have "filter (\<lambda>q. propertyKey numToString (cluster_at lvl q)
                     = propertyKey numToString (cluster_at lvl pt)) embs
      = filter (\<lambda>q. cluster_at lvl q = cluster_at lvl pt) embs"
    using True inj by (intro filter_cong refl) (auto dest: inj_onD)
  with True clean show ?thesis
    by (simp add: filteredData_iff spec_retained_def spec_clusterCount_def)
qed

lemma filteredData_zero_threshold_clean:
  assumes "\<forall>q\<in>set embs. propertyKey numToString (cluster_at lvl q) \<notin> set objectPrototypeKeys"
  shows "filteredData numToString embs lvl 0 = embs"
proof -
  have "\<forall>pt\<in>set embs. pt \<in> set (filteredData numToString embs lvl 0)"
    using assms by (simp add: filteredData_iff)
  then show ?thesis
    by (simp add: filteredData_def filter_id_conv)
qed

text \<open>The example of the specification: four points in clusters A, A, B, B at level 0.\<close>

lemma filteredData_example:
  "filteredData numToString
     [\<lparr>pt_x = Fin 0, pt_y = Fin 0, clusters = [Str ''A'']\<rparr>, \<lparr>pt_x = Fin 1, pt_y = Fin 0, clusters = [Str ''A'']\<rparr>,
      \<lparr>pt_x = Fin 2, pt_y = Fin 0, clusters = [Str ''B'']\<rparr>, \<lparr>pt_x = Fin 3, pt_y = Fin 0, clusters = [Str ''B'']\<rparr>]
     (Fin 0) 2
   = [\<lparr>pt_x = Fin 0, pt_y = Fin 0, clusters = [Str ''A'']\<rparr>, \<lparr>pt_x = Fin 1, pt_y = Fin 0, clusters = [Str ''A'']\<rparr>,
      \<lparr>pt_x = Fin 2, pt_y = Fin 0, clusters = [Str ''B'']\<rparr>, \<lparr>pt_x = Fin 3, pt_y = Fin 0, clusters = [Str ''B'']\<rparr>]"
  "filteredData numToString
     [\<lparr>pt_x = Fin 0, pt_y = Fin 0, clusters = [Str ''A'']\<rparr>, \<lparr>pt_x = Fin 1, pt_y = Fin 0, clusters = [Str ''A'']\<rparr>,
      \<lparr>pt_x = Fin 2, pt_y = Fin 0, clusters = [Str ''B'']\<rparr>, \<lparr>pt_x = Fin 3, pt_y = Fin 0, clusters = [Str ''B'']\<rparr>]
     (Fin 0) 3
   = []"
  by (simp_all add: filteredData_def cluster_at_def getProp_def setProp_def objectPrototypeKeys_def)

text \<open>
  C4. The claim: a point is rendered if and only if the number of points of the full
  list that share its cluster id at the current level is at least \<open>densityThreshold\<close>.
  The code counts in an object literal, so a point whose cluster id is the name of an
  inherited property (here \<^verbatim>\<open>"constructor"\<close>) is never rendered: with one such point and
  threshold 1 the point has count 1 and yet is filtered out.
\<close>

theorem inherited_key_point_dropped:
  "spec_retained [\<lparr>pt_x = Fin 0, pt_y = Fin 0, clusters = [Str ''constructor'']\<rparr>] (Fin 0) 1
      \<lparr>pt_x = Fin 0, pt_y = Fin 0, clusters = [Str ''constructor'']\<rparr>
   \<and> \<lparr>pt_x = Fin 0, pt_y = Fin 0, clusters = [Str ''constructor'']\<rparr>
        \<notin> set (filteredData numToString [\<lparr>pt_x = Fin 0, pt_y = Fin 0, clusters = [Str ''constructor'']\<rparr>] (Fin 0) 1)"
  by (simp add: spec_retained_def spec_clusterCount_def filteredData_def cluster_at_def
        getProp_def setProp_def objectPrototypeKeys_def)

text \<open>
  C5. The claim: with \<open>densityThreshold = 0\<close> the filter retains every input point. On
  the one-point list whose cluster id is \<^verbatim>\<open>"constructor"\<close> the code retains nothing.
\<close>

theorem zero_threshold_drops_inherited_key:
  "filteredData numToString [\<lparr>pt_x = Fin 0, pt_y = Fin 0, clusters = [Str ''constructor'']\<rparr>] (Fin 0) 0 = []"
  by (simp add: filteredData_def cluster_at_def getProp_def setProp_def objectPrototypeKeys_def)

text \<open>
  The same dictionary pools ids whose property keys coincide: the number \<open>1\<close> and the
  string \<^verbatim>\<open>"1"\<close> are counted together.
\<close>

lemma number_and_string_ids_pooled:
  "filteredData decimalToString
     [\<lparr>pt_x = Fin 0, pt_y = Fin 0, clusters = [Num (Fin 1)]\<rparr>, \<lparr>pt_x = Fin 1, pt_y = Fin 0, clusters = [Str ''1'']\<rparr>]
     (Fin 0) 2
   = [\<lparr>pt_x = Fin 0, pt_y = Fin 0, clusters = [Num (Fin 1)]\<rparr>, \<lparr>pt_x = Fin 1, pt_y = Fin 0, clusters = [Str ''1'']\<rparr>]"
  "\<not> spec_retained
       [\<lparr>pt_x = Fin 0, pt_y = Fin 0, clusters = [Num (Fin 1)]\<rparr>, \<lparr>pt_x = Fin 1, pt_y = Fin 0, clusters = [Str ''1'']\<rparr>]
       (Fin 0) 2 \<lparr>pt_x = Fin 0, pt_y = Fin 0, clusters = [Num (Fin 1)]\<rparr>"
  by (simp_all add: filteredData_def cluster_at_def getProp_def setProp_def objectPrototypeKeys_def
        decimal.simps spec_retained_def spec_clusterCount_def)

text \<open>
  C10. For thresholds \<open>t1 \<le> t2\<close> the points retained at \<open>t2\<close> are among those retained at
  \<open>t1\<close>, and the retained points keep the order of the input list (each filtered list is
  a subsequence of the embeddings, the one at \<open>t2\<close> a subsequence of the one at \<open>t1\<close>).
\<close>

theorem filteredData_antimono:
  assumes "t1 \<le> t2"
  shows "set (filteredData numToString embs lvl t2) \<subseteq> set (filteredData numToString embs lvl t1)
       \<and> subseq (filteredData numToString embs lvl t2) (filteredData numToString embs lvl t1)
       \<and> subseq (filteredData numToString embs lvl t1) embs
       \<and> subseq (filteredData numToString embs lvl t2) embs"
proof -
  let ?c = "countClusters numToString lvl embs Map.empty"
  let ?P = "\<lambda>t pt. geThreshold (getProp ?c (propertyKey numToString (cluster_at lvl pt))) t"
  have fd: "\<And>t. filteredData numToString embs lvl t = filter (?P t) embs"
    by (simp add: filteredData_def)
  have "filter (?P t2) embs = filter (?P t2) (filter (?P t1) embs)"
    by (rule filter_filter_weaker) (rule geThreshold_mono [OF _ assms])
  then have eq: "filteredData numToString embs lvl t2
      = filter (?P t2) (filteredData numToString embs lvl t1)"
    by (simp only: fd)
  have s21: "subseq (filteredData numToString embs lvl t2) (filteredData numToString embs lvl t1)"
    by (subst eq) (rule subseq_filter_left)
  have s1: "subseq (filteredData numToString embs lvl t1) embs"
    and s2: "subseq (filteredData numToString embs lvl t2) embs"
    by (simp_all only: fd subseq_filter_left)
  have "set (filteredData numToString embs lvl t2) \<subseteq> set (filteredData numToString embs lvl t1)"
    by (subst eq) auto
  with s21 s1 s2 show ?thesis by simp
qed

theorem filteredData_antimono_witness:
  "(2::real) \<le> 3
   \<and> set (filteredData decimalToString
        [\<lparr>pt_x = Fin 0, pt_y = Fin 0, clusters = [Str ''A'']\<rparr>, \<lparr>pt_x = Fin 1, pt_y = Fin 0, clusters = [Str ''B'']\<rparr>,
         \<lparr>pt_x = Fin 2, pt_y = Fin 0, clusters = [Str ''A'']\<rparr>] (Fin 0) 3)
     \<subseteq> set (filteredData decimalToString
        [\<lparr>pt_x = Fin 0, pt_y = Fin 0, clusters = [Str ''A'']\<rparr>, \<lparr>pt_x = Fin 1, pt_y = Fin 0, clusters = [Str ''B'']\<rparr>,
         \<lparr>pt_x = Fin 2, pt_y = Fin 0, clusters = [Str ''A'']\<rparr>] (Fin 0) 2)
   \<and> filteredData decimalToString
        [\<lparr>pt_x = Fin 0, pt_y = Fin 0, clusters = [Str ''A'']\<rparr>, \<lparr>pt_x = Fin 1, pt_y = Fin 0, clusters = [Str ''B'']\<rparr>,
         \<lparr>pt_x = Fin 2, pt_y = Fin 0, clusters = [Str ''A'']\<rparr>] (Fin 0) 2
     = [\<lparr>pt_x = Fin 0, pt_y = Fin 0, clusters = [Str ''A'']\<rparr>, \<lparr>pt_x = Fin 2, pt_y = Fin 0, clusters = [Str ''A'']\<rparr>]"
proof -
  have h: "(2::real) \<le> 3" by simp
  have e: "filteredData decimalToString
        [\<lparr>pt_x = Fin 0, pt_y = Fin 0, clusters = [Str ''A'']\<rparr>, \<lparr>pt_x = Fin 1, pt_y = Fin 0, clusters = [Str ''B'']\<rparr>,
         \<lparr>pt_x = Fin 2, pt_y = Fin 0, clusters = [Str ''A'']\<rparr>] (Fin 0) 2
     = [\<lparr>pt_x = Fin 0, pt_y = Fin 0, clusters = [Str ''A'']\<rparr>, \<lparr>pt_x = Fin 2, pt_y = Fin 0, clusters = [Str ''A'']\<rparr>]"
    by (simp add: filteredData_def cluster_at_def getProp_def setProp_def objectPrototypeKeys_def)
  from filteredData_antimono [OF h, of decimalToString
        "[\<lparr>pt_x = Fin 0, pt_y = Fin 0, clusters = [Str ''A'']\<rparr>, \<lparr>pt_x = Fin 1, pt_y = Fin 0, clusters = [Str ''B'']\<rparr>,
         \<lparr>pt_x = Fin 2, pt_y = Fin 0, clusters = [Str ''A'']\<rparr>]" "Fin 0"]
  show ?thesis using e h by blast
qed

section \<open>Properties of selection and styling\<close>

subsection \<open>What the widget is handed\<close>

lemma render_customdata_nth:
  "i < length (filteredData numToString (embeddings params) (currentLevel st) (densityThreshold st)) \<Longrightarrow>
   trace_customdata (render numToString params st) ! i
     = cluster_at (currentLevel st)
         (filteredData numToString (embeddings params) (currentLevel st) (densityThreshold st) ! i)"
  by (simp add: render_def Let_def)

lemma render_color_nth:
  "i < length (filteredData numToString (embeddings params) (currentLevel st) (densityThreshold st)) \<Longrightarrow>
   marker_color (render numToString params st) ! i
     = markerColor params st
         (filteredData numToString (embeddings params) (currentLevel st) (densityThreshold st) ! i)"
  by (simp add: render_def Let_def)

lemma render_opacity_nth:
  "i < length (filteredData numToString (embeddings params) (currentLevel st) (densityThreshold st)) \<Longrightarrow>
   marker_opacity (render numToString params st) ! i
     = markerOpacity st
         (filteredData numToString (embeddings params) (currentLevel st) (densityThreshold st) ! i)"
  by (simp add: render_def Let_def)

subsection \<open>Two small inputs\<close>

text \<open>
  Two points in clusters B and A with sub-clusters B1 and A1; and the same with the first
  point carrying no cluster id at all. With threshold 0 both points are rendered.
\<close>

lemma example_AB_filteredData:
  "filteredData decimalToString
     [\<lparr>pt_x = Fin 0, pt_y = Fin 0, clusters = [Str ''B'', Str ''B1'']\<rparr>,
      \<lparr>pt_x = Fin 1, pt_y = Fin 1, clusters = [Str ''A'', Str ''A1'']\<rparr>]
     (Fin 0) 0
   = [\<lparr>pt_x = Fin 0, pt_y = Fin 0, clusters = [Str ''B'', Str ''B1'']\<rparr>,
      \<lparr>pt_x = Fin 1, pt_y = Fin 1, clusters = [Str ''A'', Str ''A1'']\<rparr>]"
  by (simp add: filteredData_def cluster_at_def getProp_def setProp_def objectPrototypeKeys_def)

lemma example_short_filteredData:
  "filteredData decimalToString
     [\<lparr>pt_x = Fin 0, pt_y = Fin 0, clusters = []\<rparr>, \<lparr>pt_x = Fin 1, pt_y = Fin 1, clusters = [Str ''A'', Str ''A1'']\<rparr>]
     (Fin 0) 0
   = [\<lparr>pt_x = Fin 0, pt_y = Fin 0, clusters = []\<rparr>, \<lparr>pt_x = Fin 1, pt_y = Fin 1, clusters = [Str ''A'', Str ''A1'']\<rparr>]"
  by (simp add: filteredData_def cluster_at_def getProp_def setProp_def objectPrototypeKeys_def)

lemma example_selected_state:
  "handleClick \<lparr>points = Some [\<lparr>customdata = Val (Str ''A'')\<rparr>]\<rparr> initial_state
     = \<lparr>currentLevel = Fin 0, densityThreshold = 0, selectedCluster = Val (Str ''A'')\<rparr>"
  by (simp add: handleClick_def initial_state_def strictEq_def)

text \<open>One point whose cluster id at level 0 is NaN, with a sub-cluster.\<close>

lemma example_NaN_filteredData:
  "filteredData decimalToString
     [\<lparr>pt_x = Fin 0, pt_y = Fin 0, clusters = [Num NaN, Str ''child'']\<rparr>] (Fin 0) 0
   = [\<lparr>pt_x = Fin 0, pt_y = Fin 0, clusters = [Num NaN, Str ''child'']\<rparr>]"
  by (simp add: filteredData_def cluster_at_def getProp_def setProp_def objectPrototypeKeys_def)

lemma fl64_one: "fl64 1 = Fin 1"
  using binary64_of_int [of 1] by (simp add: binary64_fl64)

subsection \<open>Clicks\<close>

text \<open>Away from NaN, \<^verbatim>\<open>===\<close> is equality of values.\<close>

lemma strictEq_eq: "b \<noteq> Val (Num NaN) \<Longrightarrow> strictEq a b = (a = b)"
  by (auto simp: strictEq_def)

lemma strictEq_NaN: "strictEq a (Val (Num NaN)) = False"
  by (simp add: strictEq_def)

lemma handleClick_point:
  "points event = Some (p # ps) \<Longrightarrow>
   handleClick event st
     = st\<lparr>selectedCluster :=
          (if strictEq (selectedCluster st) (customdata p) then Null else customdata p)\<rparr>"
  by (simp add: handleClick_def)

lemma handleClick_no_point:
  "points event = None \<or> points event = Some [] \<Longrightarrow>
   handleClick event st = st\<lparr>selectedCluster := Null\<rparr>"
  by (auto simp: handleClick_def)

text \<open>
  C6, as amended. A click that carries at least one point, the first with a cluster id
  other than NaN, sets \<open>selectedCluster\<close> to that customdata (for the \<open>i\<close>-th rendered
  point its cluster id at the current level), unless that value is already selected, in
  which case the selection is cleared (\<^verbatim>\<open>null\<close>); a click that carries no point clears
  the selection. So two clicks on the same cluster, starting with it not selected, first
  select it and then leave nothing selected.
\<close>

theorem click_toggles_selection:
  assumes "customdata p \<noteq> Val (Num NaN)"
  shows "handleClick \<lparr>points = Some (p # ps)\<rparr> st
     = st\<lparr>selectedCluster := (if selectedCluster st = customdata p then Null else customdata p)\<rparr>
   \<and> handleClick \<lparr>points = Some []\<rparr> st = st\<lparr>selectedCluster := Null\<rparr>
   \<and> handleClick \<lparr>points = None\<rparr> st = st\<lparr>selectedCluster := Null\<rparr>
   \<and> (selectedCluster st \<noteq> customdata p \<longrightarrow>
        selectedCluster (handleClick \<lparr>points = Some (p # ps)\<rparr> st) = customdata p
        \<and> selectedCluster
             (handleClick \<lparr>points = Some (p # ps)\<rparr> (handleClick \<lparr>points = Some (p # ps)\<rparr> st))
            = Null)
   \<and> (i < length (filteredData numToString (embeddings params) (currentLevel st) (densityThreshold st)) \<longrightarrow>
        trace_customdata (render numToString params st) ! i
          = cluster_at (currentLevel st)
              (filteredData numToString (embeddings params) (currentLevel st) (densityThreshold st) ! i))"
proof (intro conjI impI)
  note eq = strictEq_eq [OF assms]
  show "handleClick \<lparr>points = Some (p # ps)\<rparr> st
     = st\<lparr>selectedCluster := (if selectedCluster st = customdata p then Null else customdata p)\<rparr>"
    by (simp add: handleClick_point eq)
  show "handleClick \<lparr>points = Some []\<rparr> st = st\<lparr>selectedCluster := Null\<rparr>"
    by (simp add: handleClick_no_point)
  show "handleClick \<lparr>points = None\<rparr> st = st\<lparr>selectedCluster := Null\<rparr>"
    by (simp add: handleClick_no_point)
next
  note eq = strictEq_eq [OF assms]
  assume a: "selectedCluster st \<noteq> customdata p"
  then show "selectedCluster (handleClick \<lparr>points = Some (p # ps)\<rparr> st) = customdata p"
    by (simp add: handleClick_point eq)
  from a show "selectedCluster
      (handleClick \<lparr>points = Some (p # ps)\<rparr> (handleClick \<lparr>points = Some (p # ps)\<rparr> st)) = Null"
    by (simp add: handleClick_point eq)
next
  assume "i < length (filteredData numToString (embeddings params) (currentLevel st) (densityThreshold st))"
  then show "trace_customdata (render numToString params st) ! i
        = cluster_at (currentLevel st)
            (filteredData numToString (embeddings params) (currentLevel st) (densityThreshold st) ! i)"
    by (rule render_customdata_nth)
qed

theorem click_toggles_selection_witness:
  "trace_customdata
     (render decimalToString
        \<lparr>embeddings = [\<lparr>pt_x = Fin 0, pt_y = Fin 0, clusters = [Str ''B'', Str ''B1'']\<rparr>,
                       \<lparr>pt_x = Fin 1, pt_y = Fin 1, clusters = [Str ''A'', Str ''A1'']\<rparr>],
         maxLevel = Some (Fin 1), sliderMax = None\<rparr>
        initial_state) ! 1
     = Val (Str ''A'')
   \<and> selectedCluster (handleClick \<lparr>points = Some [\<lparr>customdata = Val (Str ''A'')\<rparr>]\<rparr> initial_state)
       = Val (Str ''A'')
   \<and> selectedCluster
        (handleClick \<lparr>points = Some [\<lparr>customdata = Val (Str ''A'')\<rparr>]\<rparr>
           (handleClick \<lparr>points = Some [\<lparr>customdata = Val (Str ''A'')\<rparr>]\<rparr> initial_state))
       = Null
   \<and> selectedCluster
        (handleClick \<lparr>points = Some []\<rparr>
           (handleClick \<lparr>points = Some [\<lparr>customdata = Val (Str ''A'')\<rparr>]\<rparr> initial_state))
       = Null"
proof -
  let ?b = "\<lparr>pt_x = Fin 0, pt_y = Fin 0, clusters = [Str ''B'', Str ''B1'']\<rparr>"
  let ?a = "\<lparr>pt_x = Fin 1, pt_y = Fin 1, clusters = [Str ''A'', Str ''A1'']\<rparr>"
  let ?params = "\<lparr>embeddings = [?b, ?a], maxLevel = Some (Fin 1), sliderMax = None\<rparr>"
  let ?p = "\<lparr>customdata = Val (Str ''A'')\<rparr>"
  have fd: "filteredData decimalToString (embeddings ?params) (currentLevel initial_state)
              (densityThreshold initial_state) = [?b, ?a]"
    by (simp add: initial_state_def example_AB_filteredData)
  have h0: "customdata ?p \<noteq> Val (Num NaN)" by simp
  have h1: "selectedCluster initial_state \<noteq> customdata ?p"
    by (simp add: initial_state_def)
  have h2: "1 < length (filteredData decimalToString (embeddings ?params) (currentLevel initial_state)
              (densityThreshold initial_state))"
    by (simp only: fd) simp
  have c: "cluster_at (currentLevel initial_state)
             (filteredData decimalToString (embeddings ?params) (currentLevel initial_state)
                (densityThreshold initial_state) ! 1) = Val (Str ''A'')"
    by (simp only: fd) (simp add: initial_state_def cluster_at_def)
  have cd: "customdata ?p = Val (Str ''A'')" by simp
  from click_toggles_selection [OF h0, of "[]" initial_state 1 decimalToString ?params] h1 h2
  have "selectedCluster (handleClick \<lparr>points = Some [?p]\<rparr> initial_state) = customdata ?p"
    and "selectedCluster (handleClick \<lparr>points = Some [?p]\<rparr>
           (handleClick \<lparr>points = Some [?p]\<rparr> initial_state)) = Null"
    and "trace_customdata (render decimalToString ?params initial_state) ! 1
          = cluster_at (currentLevel initial_state)
              (filteredData decimalToString (embeddings ?params) (currentLevel initial_state)
                (densityThreshold initial_state) ! 1)"
    by blast+
  moreover from click_toggles_selection
    [OF h0, of "[]" "handleClick \<lparr>points = Some [?p]\<rparr> initial_state" 1 decimalToString ?params]
  have "selectedCluster (handleClick \<lparr>points = Some []\<rparr>
           (handleClick \<lparr>points = Some [?p]\<rparr> initial_state)) = Null"
    by simp
  ultimately show ?thesis using c cd by simp
qed

text \<open>
  The claim as first stated fails for a cluster whose id is NaN: the point is rendered
  with customdata NaN, a click on it selects NaN, and a second click on it leaves NaN
  selected, since NaN is not \<^verbatim>\<open>===\<close> to itself.
\<close>

theorem click_NaN_counterexample:
  "trace_customdata
     (render decimalToString
        \<lparr>embeddings = [\<lparr>pt_x = Fin 0, pt_y = Fin 0, clusters = [Num NaN, Str ''child'']\<rparr>],
         maxLevel = Some (Fin 1), sliderMax = None\<rparr>
        initial_state) ! 0
     = Val (Num NaN)
   \<and> selectedCluster initial_state \<noteq> Val (Num NaN)
   \<and> selectedCluster (handleClick \<lparr>points = Some [\<lparr>customdata = Val (Num NaN)\<rparr>]\<rparr> initial_state)
       = Val (Num NaN)
   \<and> selectedCluster
        (handleClick \<lparr>points = Some [\<lparr>customdata = Val (Num NaN)\<rparr>]\<rparr>
           (handleClick \<lparr>points = Some [\<lparr>customdata = Val (Num NaN)\<rparr>]\<rparr> initial_state))
       = Val (Num NaN)
   \<and> Val (Num NaN) \<noteq> Null"
  by (simp add: render_def initial_state_def example_NaN_filteredData cluster_at_def
        handleClick_def strictEq_def)

subsection \<open>Marker colours and opacities\<close>

text \<open>
  C7, as amended. While the selected cluster is not NaN, for the \<open>i\<close>-th retained point:
  if a cluster is selected and the point's id at the current level differs from it, the
  colour is \<^verbatim>\<open>'#ccc'\<close> and the opacity \<open>0.2\<close>; if a cluster is selected, the point belongs
  to it and \<open>currentLevel < maxLevel\<close>, the colour is the point's id at level
  \<open>currentLevel + 1\<close>; otherwise the colour is the point's id at the current level and the
  opacity is \<open>1\<close>.
\<close>

theorem marker_styling:
  assumes "i < length (filteredData numToString (embeddings params) (currentLevel st) (densityThreshold st))"
    and "pt = filteredData numToString (embeddings params) (currentLevel st) (densityThreshold st) ! i"
    and "selectedCluster st \<noteq> Val (Num NaN)"
  shows "(notNull (selectedCluster st) \<and> cluster_at (currentLevel st) pt \<noteq> selectedCluster st \<longrightarrow>
            marker_color (render numToString params st) ! i = Val (Str ''#ccc'')
            \<and> marker_opacity (render numToString params st) ! i = 0.2)
       \<and> (notNull (selectedCluster st) \<and> cluster_at (currentLevel st) pt = selectedCluster st
            \<and> jlt (currentLevel st) (maxLevel_of params) \<longrightarrow>
            marker_color (render numToString params st) ! i
              = cluster_at (jadd (currentLevel st) (Fin 1)) pt)
       \<and> (\<not> (notNull (selectedCluster st) \<and> cluster_at (currentLevel st) pt \<noteq> selectedCluster st)
            \<and> \<not> (notNull (selectedCluster st) \<and> cluster_at (currentLevel st) pt = selectedCluster st
                   \<and> jlt (currentLevel st) (maxLevel_of params)) \<longrightarrow>
            marker_color (render numToString params st) ! i = cluster_at (currentLevel st) pt
            \<and> marker_opacity (render numToString params st) ! i = 1)"
  using assms(1,2)
  by (auto simp: render_color_nth render_opacity_nth markerColor_def markerOpacity_def
        strictEq_eq [OF assms(3)])

theorem marker_styling_witness:
  "marker_color
        (render decimalToString
           \<lparr>embeddings = [\<lparr>pt_x = Fin 0, pt_y = Fin 0, clusters = [Str ''B'', Str ''B1'']\<rparr>,
                          \<lparr>pt_x = Fin 1, pt_y = Fin 1, clusters = [Str ''A'', Str ''A1'']\<rparr>],
            maxLevel = Some (Fin 1), sliderMax = None\<rparr>
           \<lparr>currentLevel = Fin 0, densityThreshold = 0, selectedCluster = Val (Str ''A'')\<rparr>) ! 0
      = Val (Str ''#ccc'')
   \<and> marker_opacity
        (render decimalToString
           \<lparr>embeddings = [\<lparr>pt_x = Fin 0, pt_y = Fin 0, clusters = [Str ''B'', Str ''B1'']\<rparr>,
                          \<lparr>pt_x = Fin 1, pt_y = Fin 1, clusters = [Str ''A'', Str ''A1'']\<rparr>],
            maxLevel = Some (Fin 1), sliderMax = None\<rparr>
           \<lparr>currentLevel = Fin 0, densityThreshold = 0, selectedCluster = Val (Str ''A'')\<rparr>) ! 0
      = 0.2
   \<and> marker_color
        (render decimalToString
           \<lparr>embeddings = [\<lparr>pt_x = Fin 0, pt_y = Fin 0, clusters = [Str ''B'', Str ''B1'']\<rparr>,
                          \<lparr>pt_x = Fin 1, pt_y = Fin 1, clusters = [Str ''A'', Str ''A1'']\<rparr>],
            maxLevel = Some (Fin 1), sliderMax = None\<rparr>
           \<lparr>currentLevel = Fin 0, densityThreshold = 0, selectedCluster = Val (Str ''A'')\<rparr>) ! 1
      = Val (Str ''A1'')
   \<and> marker_color
        (render decimalToString
           \<lparr>embeddings = [\<lparr>pt_x = Fin 0, pt_y = Fin 0, clusters = [Str ''B'', Str ''B1'']\<rparr>,
                          \<lparr>pt_x = Fin 1, pt_y = Fin 1, clusters = [Str ''A'', Str ''A1'']\<rparr>],
            maxLevel = Some (Fin 1), sliderMax = None\<rparr>
           \<lparr>currentLevel = Fin 0, densityThreshold = 0, selectedCluster = Null\<rparr>) ! 1
      = Val (Str ''A'')
   \<and> marker_opacity
        (render decimalToString
           \<lparr>embeddings = [\<lparr>pt_x = Fin 0, pt_y = Fin 0, clusters = [Str ''B'', Str ''B1'']\<rparr>,
                          \<lparr>pt_x = Fin 1, pt_y = Fin 1, clusters = [Str ''A'', Str ''A1'']\<rparr>],
            maxLevel = Some (Fin 1), sliderMax = None\<rparr>
           \<lparr>currentLevel = Fin 0, densityThreshold = 0, selectedCluster = Null\<rparr>) ! 1
      = 1"
proof -
  let ?b = "\<lparr>pt_x = Fin 0, pt_y = Fin 0, clusters = [Str ''B'', Str ''B1'']\<rparr>"
  let ?a = "\<lparr>pt_x = Fin 1, pt_y = Fin 1, clusters = [Str ''A'', Str ''A1'']\<rparr>"
  let ?params = "\<lparr>embeddings = [?b, ?a], maxLevel = Some (Fin 1), sliderMax = None\<rparr>"
  let ?sel = "\<lparr>currentLevel = Fin 0, densityThreshold = 0, selectedCluster = Val (Str ''A'')\<rparr>"
  let ?unsel = "\<lparr>currentLevel = Fin 0, densityThreshold = 0, selectedCluster = Null\<rparr>"
  have fd: "filteredData decimalToString (embeddings ?params) (currentLevel ?sel) (densityThreshold ?sel)
      = [?b, ?a]"
    by (simp add: example_AB_filteredData)
  have fd0: "filteredData decimalToString (embeddings ?params) (currentLevel ?unsel) (densityThreshold ?unsel)
      = [?b, ?a]"
    by (simp add: example_AB_filteredData)
  have i0: "0 < length (filteredData decimalToString (embeddings ?params) (currentLevel ?sel)
                          (densityThreshold ?sel))"
    and i1: "1 < length (filteredData decimalToString (embeddings ?params) (currentLevel ?sel)
                          (densityThreshold ?sel))"
    by (simp_all only: fd) simp_all
  have j1: "1 < length (filteredData decimalToString (embeddings ?params) (currentLevel ?unsel)
                          (densityThreshold ?unsel))"
    by (simp only: fd0) simp
  have p0: "?b = filteredData decimalToString (embeddings ?params) (currentLevel ?sel)
                   (densityThreshold ?sel) ! 0"
    and p1: "?a = filteredData decimalToString (embeddings ?params) (currentLevel ?sel)
                   (densityThreshold ?sel) ! 1"
    by (simp_all only: fd) simp_all
  have q1: "?a = filteredData decimalToString (embeddings ?params) (currentLevel ?unsel)
                   (densityThreshold ?unsel) ! 1"
    by (simp only: fd0) simp
  have c0: "notNull (selectedCluster ?sel) \<and> cluster_at (currentLevel ?sel) ?b \<noteq> selectedCluster ?sel"
    by (simp add: notNull_def cluster_at_def)
  have c1: "notNull (selectedCluster ?sel) \<and> cluster_at (currentLevel ?sel) ?a = selectedCluster ?sel
            \<and> jlt (currentLevel ?sel) (maxLevel_of ?params)"
    by (simp add: notNull_def cluster_at_def maxLevel_of_def)
  have c2: "\<not> (notNull (selectedCluster ?unsel) \<and> cluster_at (currentLevel ?unsel) ?a \<noteq> selectedCluster ?unsel)
            \<and> \<not> (notNull (selectedCluster ?unsel) \<and> cluster_at (currentLevel ?unsel) ?a = selectedCluster ?unsel
                   \<and> jlt (currentLevel ?unsel) (maxLevel_of ?params))"
    by (simp add: notNull_def)
  have n1: "cluster_at (jadd (currentLevel ?sel) (Fin 1)) ?a = Val (Str ''A1'')"
    and n0: "cluster_at (currentLevel ?unsel) ?a = Val (Str ''A'')"
    by (simp_all add: cluster_at_def fl64_one)
  have s1: "selectedCluster ?sel \<noteq> Val (Num NaN)"
    and s0: "selectedCluster ?unsel \<noteq> Val (Num NaN)"
    by simp_all
  from marker_styling [OF i0 p0 s1] c0
  have "marker_color (render decimalToString ?params ?sel) ! 0 = Val (Str ''#ccc'')
      \<and> marker_opacity (render decimalToString ?params ?sel) ! 0 = 0.2"
    by blast
  moreover from marker_styling [OF i1 p1 s1] c1
  have "marker_color (render decimalToString ?params ?sel) ! 1
      = cluster_at (jadd (currentLevel ?sel) (Fin 1)) ?a"
    by blast
  moreover from marker_styling [OF j1 q1 s0] c2
  have "marker_color (render decimalToString ?params ?unsel) ! 1 = cluster_at (currentLevel ?unsel) ?a
      \<and> marker_opacity (render decimalToString ?params ?unsel) ! 1 = 1"
    by blast
  ultimately show ?thesis using n1 n0 by simp
qed

text \<open>
  The claim as first stated fails when the selected cluster is NaN: a rendered point whose
  id is NaN has the selected value as its id and a deeper level exists, yet
  \<^verbatim>\<open>pt.clusters[currentLevel] !== selectedCluster\<close> holds of it, so it is grey at opacity
  \<open>0.2\<close> and not coloured by its id at the next level.
\<close>

theorem marker_styling_NaN_counterexample:
  "filteredData decimalToString
     [\<lparr>pt_x = Fin 0, pt_y = Fin 0, clusters = [Num NaN, Str ''child'']\<rparr>] (Fin 0) 0 ! 0
     = \<lparr>pt_x = Fin 0, pt_y = Fin 0, clusters = [Num NaN, Str ''child'']\<rparr>
   \<and> notNull (Val (Num NaN))
   \<and> cluster_at (Fin 0) \<lparr>pt_x = Fin 0, pt_y = Fin 0, clusters = [Num NaN, Str ''child'']\<rparr> = Val (Num NaN)
   \<and> jlt (Fin 0) (Fin 1)
   \<and> cluster_at (jadd (Fin 0) (Fin 1)) \<lparr>pt_x = Fin 0, pt_y = Fin 0, clusters = [Num NaN, Str ''child'']\<rparr>
       = Val (Str ''child'')
   \<and> marker_color
        (render decimalToString
           \<lparr>embeddings = [\<lparr>pt_x = Fin 0, pt_y = Fin 0, clusters = [Num NaN, Str ''child'']\<rparr>],
            maxLevel = Some (Fin 1), sliderMax = None\<rparr>
           \<lparr>currentLevel = Fin 0, densityThreshold = 0, selectedCluster = Val (Num NaN)\<rparr>) ! 0
       = Val (Str ''#ccc'')
   \<and> marker_opacity
        (render decimalToString
           \<lparr>embeddings = [\<lparr>pt_x = Fin 0, pt_y = Fin 0, clusters = [Num NaN, Str ''child'']\<rparr>],
            maxLevel = Some (Fin 1), sliderMax = None\<rparr>
           \<lparr>currentLevel = Fin 0, densityThreshold = 0, selectedCluster = Val (Num NaN)\<rparr>) ! 0
       = 0.2"
  by (simp add: render_def example_NaN_filteredData markerColor_def markerOpacity_def
        notNull_def cluster_at_def strictEq_def fl64_one)

text \<open>
  C9, as amended. For a retained point whose \<open>clusters\<close> sequence is shorter than
  \<open>currentLevel + 1\<close> the lookup of its cluster id is \<^verbatim>\<open>undefined\<close>, and so is the
  customdata handed to the widget. When no cluster is selected its colour is
  \<^verbatim>\<open>undefined\<close> and its opacity \<open>1\<close>; when a cluster is selected the point is styled
  as a non-member, colour \<^verbatim>\<open>'#ccc'\<close> and opacity \<open>0.2\<close>. Every step is a total
  function: there is no error result.
\<close>

theorem short_clusters_styling:
  assumes "i < length (filteredData numToString (embeddings params) (currentLevel st) (densityThreshold st))"
    and "pt = filteredData numToString (embeddings params) (currentLevel st) (densityThreshold st) ! i"
    and "currentLevel st = Fin (real k)"
    and "length (clusters pt) < k + 1"
  shows "trace_customdata (render numToString params st) ! i = Undefined
       \<and> (\<not> notNull (selectedCluster st) \<longrightarrow>
            marker_color (render numToString params st) ! i = Undefined
            \<and> marker_opacity (render numToString params st) ! i = 1)
       \<and> (notNull (selectedCluster st) \<longrightarrow>
            marker_color (render numToString params st) ! i = Val (Str ''#ccc'')
            \<and> marker_opacity (render numToString params st) ! i = 0.2)"
proof -
  have u: "cluster_at (currentLevel st) pt = Undefined"
    using assms(3,4) by (simp add: cluster_at_def)
  show ?thesis
    using assms(1) u
    by (auto simp: render_customdata_nth render_color_nth render_opacity_nth assms(2) [symmetric]
          markerColor_def markerOpacity_def notNull_def strictEq_def)
qed

theorem short_clusters_styling_witness:
  "trace_customdata
        (render decimalToString
           \<lparr>embeddings = [\<lparr>pt_x = Fin 0, pt_y = Fin 0, clusters = []\<rparr>,
                          \<lparr>pt_x = Fin 1, pt_y = Fin 1, clusters = [Str ''A'', Str ''A1'']\<rparr>],
            maxLevel = Some (Fin 1), sliderMax = None\<rparr>
           \<lparr>currentLevel = Fin 0, densityThreshold = 0, selectedCluster = Null\<rparr>) ! 0
      = Undefined
   \<and> marker_color
        (render decimalToString
           \<lparr>embeddings = [\<lparr>pt_x = Fin 0, pt_y = Fin 0, clusters = []\<rparr>,
                          \<lparr>pt_x = Fin 1, pt_y = Fin 1, clusters = [Str ''A'', Str ''A1'']\<rparr>],
            maxLevel = Some (Fin 1), sliderMax = None\<rparr>
           \<lparr>currentLevel = Fin 0, densityThreshold = 0, selectedCluster = Null\<rparr>) ! 0
      = Undefined
   \<and> marker_opacity
        (render decimalToString
           \<lparr>embeddings = [\<lparr>pt_x = Fin 0, pt_y = Fin 0, clusters = []\<rparr>,
                          \<lparr>pt_x = Fin 1, pt_y = Fin 1, clusters = [Str ''A'', Str ''A1'']\<rparr>],
            maxLevel = Some (Fin 1), sliderMax = None\<rparr>
           \<lparr>currentLevel = Fin 0, densityThreshold = 0, selectedCluster = Null\<rparr>) ! 0
      = 1
   \<and> marker_color
        (render decimalToString
           \<lparr>embeddings = [\<lparr>pt_x = Fin 0, pt_y = Fin 0, clusters = []\<rparr>,
                          \<lparr>pt_x = Fin 1, pt_y = Fin 1, clusters = [Str ''A'', Str ''A1'']\<rparr>],
            maxLevel = Some (Fin 1), sliderMax = None\<rparr>
           \<lparr>currentLevel = Fin 0, densityThreshold = 0, selectedCluster = Val (Str ''A'')\<rparr>) ! 0
      = Val (Str ''#ccc'')
   \<and> marker_opacity
        (render decimalToString
           \<lparr>embeddings = [\<lparr>pt_x = Fin 0, pt_y = Fin 0, clusters = []\<rparr>,
                          \<lparr>pt_x = Fin 1, pt_y = Fin 1, clusters = [Str ''A'', Str ''A1'']\<rparr>],
            maxLevel = Some (Fin 1), sliderMax = None\<rparr>
           \<lparr>currentLevel = Fin 0, densityThreshold = 0, selectedCluster = Val (Str ''A'')\<rparr>) ! 0
      = 0.2"
proof -
  let ?p = "\<lparr>pt_x = Fin 0, pt_y = Fin 0, clusters = []\<rparr>"
  let ?a = "\<lparr>pt_x = Fin 1, pt_y = Fin 1, clusters = [Str ''A'', Str ''A1'']\<rparr>"
  let ?params = "\<lparr>embeddings = [?p, ?a], maxLevel = Some (Fin 1), sliderMax = None\<rparr>"
  let ?unsel = "\<lparr>currentLevel = Fin 0, densityThreshold = 0, selectedCluster = Null\<rparr>"
  let ?sel = "\<lparr>currentLevel = Fin 0, densityThreshold = 0, selectedCluster = Val (Str ''A'')\<rparr>"
  have fd0: "filteredData decimalToString (embeddings ?params) (currentLevel ?unsel) (densityThreshold ?unsel)
      = [?p, ?a]"
    and fd: "filteredData decimalToString (embeddings ?params) (currentLevel ?sel) (densityThreshold ?sel)
      = [?p, ?a]"
    by (simp_all add: example_short_filteredData)
  have i0: "0 < length (filteredData decimalToString (embeddings ?params) (currentLevel ?unsel)
              (densityThreshold ?unsel))"
    and p0: "?p = filteredData decimalToString (embeddings ?params) (currentLevel ?unsel)
              (densityThreshold ?unsel) ! 0"
    by (simp_all only: fd0) simp_all
  have i1: "0 < length (filteredData decimalToString (embeddings ?params) (currentLevel ?sel)
              (densityThreshold ?sel))"
    and p1: "?p = filteredData decimalToString (embeddings ?params) (currentLevel ?sel)
              (densityThreshold ?sel) ! 0"
    by (simp_all only: fd) simp_all
  have lv0: "currentLevel ?unsel = Fin (real 0)" and lv: "currentLevel ?sel = Fin (real 0)"
    by simp_all
  have sh: "length (clusters ?p) < 0 + 1" by simp
  have ns: "\<not> notNull (selectedCluster ?unsel)" and s: "notNull (selectedCluster ?sel)"
    by (simp_all add: notNull_def)
  from short_clusters_styling [OF i0 p0 lv0 sh] ns
  have "trace_customdata (render decimalToString ?params ?unsel) ! 0 = Undefined
      \<and> marker_color (render decimalToString ?params ?unsel) ! 0 = Undefined
      \<and> marker_opacity (render decimalToString ?params ?unsel) ! 0 = 1"
    by blast
  moreover from short_clusters_styling [OF i1 p1 lv sh] s
  have "marker_color (render decimalToString ?params ?sel) ! 0 = Val (Str ''#ccc'')
      \<and> marker_opacity (render decimalToString ?params ?sel) ! 0 = 0.2"
    by blast
  ultimately show ?thesis by blast
qed

text \<open>
  The claim as first stated (the colour of every such point is \<^verbatim>\<open>undefined\<close>) fails once
  a cluster is selected: after a click on cluster A, the point with no cluster id is grey.
\<close>

theorem short_clusters_selected_counterexample:
  "length (clusters \<lparr>pt_x = Fin 0, pt_y = Fin 0, clusters = []\<rparr>) < 0 + 1
   \<and> currentLevel (handleClick \<lparr>points = Some [\<lparr>customdata = Val (Str ''A'')\<rparr>]\<rparr> initial_state) = Fin 0
   \<and> filteredData decimalToString
        [\<lparr>pt_x = Fin 0, pt_y = Fin 0, clusters = []\<rparr>, \<lparr>pt_x = Fin 1, pt_y = Fin 1, clusters = [Str ''A'', Str ''A1'']\<rparr>]
        (Fin 0) 0 ! 0
      = \<lparr>pt_x = Fin 0, pt_y = Fin 0, clusters = []\<rparr>
   \<and> marker_color
        (render decimalToString
           \<lparr>embeddings = [\<lparr>pt_x = Fin 0, pt_y = Fin 0, clusters = []\<rparr>,
                          \<lparr>pt_x = Fin 1, pt_y = Fin 1, clusters = [Str ''A'', Str ''A1'']\<rparr>],
            maxLevel = Some (Fin 1), sliderMax = None\<rparr>
           (handleClick \<lparr>points = Some [\<lparr>customdata = Val (Str ''A'')\<rparr>]\<rparr> initial_state)) ! 0
      = Val (Str ''#ccc'')
   \<and> marker_opacity
        (render decimalToString
           \<lparr>embeddings = [\<lparr>pt_x = Fin 0, pt_y = Fin 0, clusters = []\<rparr>,
                          \<lparr>pt_x = Fin 1, pt_y = Fin 1, clusters = [Str ''A'', Str ''A1'']\<rparr>],
            maxLevel = Some (Fin 1), sliderMax = None\<rparr>
           (handleClick \<lparr>points = Some [\<lparr>customdata = Val (Str ''A'')\<rparr>]\<rparr> initial_state)) ! 0
      = 0.2"
  by (simp add: example_selected_state render_def example_short_filteredData markerColor_def
        markerOpacity_def notNull_def cluster_at_def strictEq_def)

end
